theory Spec2Isabelle
  imports Main "HOL-Library.Word" "HOL-Library.AList"
begin

unbundle bit_operations_syntax

section \<open>Machine types\<close>

type_synonym u8 = "8 word"
type_synonym u16 = "16 word"
type_synonym u32 = "32 word"

text \<open>\<^verbatim>\<open>using ByteBuffer = std::vector<uint8_t>\<close> (common.h).\<close>

type_synonym ByteBuffer = "u8 list"

text \<open>
  The struct \<^verbatim>\<open>FrameHeader\<close> is packed and copied to and from the wire with
  \<^verbatim>\<open>memcpy\<close>; the header comment of mux_protocol.h fixes the layout as
  "8 bytes, little-endian". The four functions below are that byte layout of a 16-bit
  and of a 32-bit field.
\<close>

definition le16 :: "u16 \<Rightarrow> u8 list" where
  "le16 w = [ucast w, ucast (drop_bit 8 w)]"

definition le32 :: "u32 \<Rightarrow> u8 list" where
  "le32 w = [ucast w, ucast (drop_bit 8 w), ucast (drop_bit 16 w), ucast (drop_bit 24 w)]"

definition rd16 :: "u8 \<Rightarrow> u8 \<Rightarrow> u16" where
  "rd16 b0 b1 = ucast b0 OR push_bit 8 (ucast b1)"

definition rd32 :: "u8 \<Rightarrow> u8 \<Rightarrow> u8 \<Rightarrow> u8 \<Rightarrow> u32" where
  "rd32 b0 b1 b2 b3 =
     ucast b0 OR push_bit 8 (ucast b1) OR push_bit 16 (ucast b2) OR push_bit 24 (ucast b3)"

section \<open>mux\_protocol.h / mux\_protocol.cpp: the framing codec\<close>

datatype FrameType =
    ChannelOpen | ChannelOpenAck | ChannelRequest | ChannelRequestAck | Data
  | ChannelClose | ChannelCloseAck | Ping | Pong | WindowUpdate

text \<open>\<^verbatim>\<open>static_cast<uint8_t>(type)\<close>: the enumerators' values.\<close>

fun FrameType_u8 :: "FrameType \<Rightarrow> u8" where
  "FrameType_u8 ChannelOpen = 0x01"
| "FrameType_u8 ChannelOpenAck = 0x02"
| "FrameType_u8 ChannelRequest = 0x03"
| "FrameType_u8 ChannelRequestAck = 0x04"
| "FrameType_u8 Data = 0x05"
| "FrameType_u8 ChannelClose = 0x06"
| "FrameType_u8 ChannelCloseAck = 0x07"
| "FrameType_u8 Ping = 0x08"
| "FrameType_u8 Pong = 0x09"
| "FrameType_u8 WindowUpdate = 0x0A"

abbreviation (input) FRAME_FLAG_FIN :: u8 where "FRAME_FLAG_FIN \<equiv> 0x01"
abbreviation (input) FRAME_FLAG_RST :: u8 where "FRAME_FLAG_RST \<equiv> 0x02"

abbreviation (input) FRAME_HEADER_SIZE :: nat where "FRAME_HEADER_SIZE \<equiv> 8"
abbreviation (input) FRAME_MAX_PAYLOAD :: nat where "FRAME_MAX_PAYLOAD \<equiv> 65536"

record FrameHeader =
  type :: u8
  flags :: u8
  channel_id :: u16
  payload_length :: u32

record Frame =
  header :: FrameHeader
  payload :: ByteBuffer

text \<open>\<^verbatim>\<open>memcpy(buf.data(), &hdr, FRAME_HEADER_SIZE)\<close>: the eight bytes of a header.\<close>

definition header_bytes :: "FrameHeader \<Rightarrow> u8 list" where
  "header_bytes hdr = [type hdr, flags hdr] @ le16 (channel_id hdr) @ le32 (payload_length hdr)"

text \<open>
  \<^verbatim>\<open>memcpy(&hdr, m_buffer.data(), FRAME_HEADER_SIZE)\<close>: the header read back from the
  first eight bytes of a buffer. It is called only where the buffer holds at least eight
  bytes.
\<close>

definition read_header :: "u8 list \<Rightarrow> FrameHeader" where
  "read_header buf =
     \<lparr> type = buf ! 0, flags = buf ! 1,
       channel_id = rd16 (buf ! 2) (buf ! 3),
       payload_length = rd32 (buf ! 4) (buf ! 5) (buf ! 6) (buf ! 7) \<rparr>"

text \<open>
  The codec: \<^verbatim>\<open>m_buffer\<close> is a fixed array of \<^verbatim>\<open>FRAME_HEADER_SIZE + FRAME_MAX_PAYLOAD\<close>
  bytes of which the first \<^verbatim>\<open>m_used\<close> are in use. The code never reads a byte at or
  beyond \<^verbatim>\<open>m_used\<close>, so the model keeps the bytes in use only: the field \<open>m_buffer\<close> is
  that prefix and \<open>m_used\<close> is its length.
\<close>

record FrameCodec =
  m_buffer :: ByteBuffer

definition m_used :: "FrameCodec \<Rightarrow> nat" where
  "m_used c = length (m_buffer c)"

text \<open>\<^verbatim>\<open>m_buffer.size()\<close>, set by the constructor's \<^verbatim>\<open>resize\<close>.\<close>

abbreviation (input) m_buffer_size :: nat where
  "m_buffer_size \<equiv> FRAME_HEADER_SIZE + FRAME_MAX_PAYLOAD"

definition FrameCodec_init :: FrameCodec where
  "FrameCodec_init = \<lparr> m_buffer = [] \<rparr>"

text \<open>
  How the inner loop of \<^verbatim>\<open>Feed\<close> is left: by \<^verbatim>\<open>break\<close> (or by its condition), which
  goes on with the outer loop, or by \<^verbatim>\<open>return\<close>, which leaves \<^verbatim>\<open>Feed\<close>.
\<close>

datatype loop_exit = Break | Return

text \<open>
  The inner loop \<^verbatim>\<open>while (m_used >= FRAME_HEADER_SIZE)\<close> of \<^verbatim>\<open>Feed\<close>: parse a header,
  on an oversized length set \<^verbatim>\<open>m_used = 0\<close> and return, wait when the frame is not
  complete, else push the frame and shift the rest to the front.
\<close>

function Feed_parse :: "u8 list \<Rightarrow> Frame list \<Rightarrow> loop_exit \<times> u8 list \<times> Frame list" where
  "Feed_parse buf out_frames =
     (if FRAME_HEADER_SIZE \<le> length buf then
        let hdr = read_header buf in
        if FRAME_MAX_PAYLOAD < unat (payload_length hdr) then (Return, [], out_frames)
        else
          let total = FRAME_HEADER_SIZE + unat (payload_length hdr) in
          if length buf < total then (Break, buf, out_frames)
          else
            Feed_parse (drop total buf)
              (out_frames @
                 [\<lparr> header = hdr,
                    payload = take (unat (payload_length hdr)) (drop FRAME_HEADER_SIZE buf) \<rparr>])
      else (Break, buf, out_frames))"
  by pat_completeness auto
termination
  by (relation "measure (\<lambda>(buf, out_frames). length buf)") auto

declare Feed_parse.simps [simp del]

text \<open>
  The outer loop \<^verbatim>\<open>while (offset < len)\<close> of \<^verbatim>\<open>Feed\<close>: copy as much of the input as
  the buffer has room for, then run the inner loop.
\<close>

function Feed_loop :: "u8 list \<Rightarrow> nat \<Rightarrow> u8 list \<Rightarrow> Frame list \<Rightarrow> u8 list \<times> Frame list" where
  "Feed_loop data offset buf out_frames =
     (if offset < length data then
        let avail = length data - offset;
            space = m_buffer_size - length buf;
            to_copy = min avail space;
            buf1 = buf @ take to_copy (drop offset data)
        in case Feed_parse buf1 out_frames of
             (Return, buf2, out2) \<Rightarrow> (buf2, out2)
           | (Break, buf2, out2) \<Rightarrow> Feed_loop data (offset + to_copy) buf2 out2
      else (buf, out_frames))"
  by pat_completeness auto
termination
proof -
  have pending: "Feed_parse b fs = (Break, b2, fs2) \<Longrightarrow> length b2 < m_buffer_size"
    for b fs b2 fs2
  proof (induction b fs rule: Feed_parse.induct)
    case (1 buf out_frames)
    show ?case
    proof (cases "FRAME_HEADER_SIZE \<le> length buf")
      case False
      with "1.prems" show ?thesis by (simp add: Feed_parse.simps [of buf])
    next
      case hd: True
      show ?thesis
      proof (cases "FRAME_MAX_PAYLOAD < unat (payload_length (read_header buf))")
        case True
        with hd "1.prems" show ?thesis by (simp add: Feed_parse.simps [of buf] Let_def)
      next
        case small: False
        show ?thesis
        proof (cases "length buf < FRAME_HEADER_SIZE + unat (payload_length (read_header buf))")
          case True
          with hd small "1.prems" show ?thesis by (simp add: Feed_parse.simps [of buf] Let_def)
        next
          case False
          with hd small "1.prems" "1.IH" [OF hd refl small refl False] show ?thesis
            by (simp add: Feed_parse.simps [of buf] Let_def)
        qed
      qed
    qed
  qed
  show ?thesis
  proof (relation "measures [\<lambda>(data, offset, buf, out_frames). length data - offset,
                             \<lambda>(data, offset, buf, out_frames). if m_buffer_size \<le> length buf then 1 else 0]",
         goal_cases)
    case 1
    show ?case by simp
  next
    case (2 data offset buf out_frames avail space to_copy buf1 x xa xb y)
    then show ?case
      using pending [of buf1 out_frames xb y]
      by (cases "length buf < m_buffer_size") (auto simp: min_def split: if_splits)
  qed
qed

declare Feed_loop.simps [simp del]

text \<open>
  \<^verbatim>\<open>void Feed(const uint8_t* data, size_t len, std::vector<Frame>& out_frames)\<close>: the new
  codec and the grown \<^verbatim>\<open>out_frames\<close>. The function returns nothing else.
\<close>

definition Feed :: "FrameCodec \<Rightarrow> u8 list \<Rightarrow> Frame list \<Rightarrow> FrameCodec \<times> Frame list" where
  "Feed c data out_frames =
     (case Feed_loop data 0 (m_buffer c) out_frames of
        (buf, out) \<Rightarrow> (c\<lparr> m_buffer := buf \<rparr>, out))"

text \<open>
  \<^verbatim>\<open>Encode(type, flags, channel_id, payload, payload_len)\<close>: a zero-filled buffer of
  \<^verbatim>\<open>FRAME_HEADER_SIZE + payload_len\<close> bytes, the header copied to its front, and
  \<^verbatim>\<open>payload_len\<close> bytes of the payload copied behind it unless the length is zero or the
  pointer null (\<open>None\<close>). Every caller passes a payload of at least \<^verbatim>\<open>payload_len\<close>
  bytes; reading a shorter one is undefined in the source.
\<close>

definition Encode :: "FrameType \<Rightarrow> u8 \<Rightarrow> u16 \<Rightarrow> u8 list option \<Rightarrow> u32 \<Rightarrow> ByteBuffer" where
  "Encode ty fl cid payload_ptr payload_len =
     (let hdr = \<lparr> type = FrameType_u8 ty, flags = fl, channel_id = cid,
                  payload_length = payload_len \<rparr>
      in header_bytes hdr @
         (case payload_ptr of
            Some p \<Rightarrow> if 0 < payload_len then take (unat payload_len) p
                      else replicate (unat payload_len) 0
          | None \<Rightarrow> replicate (unat payload_len) 0))"

definition BuildChannelOpen :: "u16 \<Rightarrow> ByteBuffer" where
  "BuildChannelOpen cid = Encode ChannelOpen 0 cid None 0"

definition BuildChannelOpenAck :: "u16 \<Rightarrow> ByteBuffer" where
  "BuildChannelOpenAck cid = Encode ChannelOpenAck 0 cid None 0"

definition BuildChannelRequest :: "u16 \<Rightarrow> u8 list \<Rightarrow> u32 \<Rightarrow> ByteBuffer" where
  "BuildChannelRequest cid data len = Encode ChannelRequest 0 cid (Some data) len"

definition BuildChannelRequestAck :: "u16 \<Rightarrow> u8 list \<Rightarrow> u32 \<Rightarrow> ByteBuffer" where
  "BuildChannelRequestAck cid data len = Encode ChannelRequestAck 0 cid (Some data) len"

definition BuildData :: "u16 \<Rightarrow> u8 list \<Rightarrow> u32 \<Rightarrow> ByteBuffer" where
  "BuildData cid data len = Encode Data 0 cid (Some data) len"

definition BuildChannelClose :: "u16 \<Rightarrow> u8 \<Rightarrow> ByteBuffer" where
  "BuildChannelClose cid fl = Encode ChannelClose fl cid None 0"

definition BuildChannelCloseAck :: "u16 \<Rightarrow> ByteBuffer" where
  "BuildChannelCloseAck cid = Encode ChannelCloseAck 0 cid None 0"

definition BuildPing :: ByteBuffer where
  "BuildPing = Encode Ping 0 0 None 0"

definition BuildPong :: ByteBuffer where
  "BuildPong = Encode Pong 0 0 None 0"

definition BuildWindowUpdate :: "u16 \<Rightarrow> u32 \<Rightarrow> ByteBuffer" where
  "BuildWindowUpdate cid increment = Encode WindowUpdate 0 cid (Some (le32 increment)) 4"

section \<open>socks5\_handler.h / socks5\_handler.cpp: the SOCKS5 parser\<close>

abbreviation (input) VERSION :: u8 where "VERSION \<equiv> 0x05"
abbreviation (input) AUTH_NONE :: u8 where "AUTH_NONE \<equiv> 0x00"
abbreviation (input) AUTH_NO_ACCEPTABLE :: u8 where "AUTH_NO_ACCEPTABLE \<equiv> 0xFF"
abbreviation (input) CMD_CONNECT :: u8 where "CMD_CONNECT \<equiv> 0x01"
abbreviation (input) ATYP_IPV4 :: u8 where "ATYP_IPV4 \<equiv> 0x01"
abbreviation (input) ATYP_DOMAIN :: u8 where "ATYP_DOMAIN \<equiv> 0x03"
abbreviation (input) ATYP_IPV6 :: u8 where "ATYP_IPV6 \<equiv> 0x04"
abbreviation (input) REP_SUCCESS :: u8 where "REP_SUCCESS \<equiv> 0x00"
abbreviation (input) REP_GENERAL_FAILURE :: u8 where "REP_GENERAL_FAILURE \<equiv> 0x01"
abbreviation (input) REP_CONNECTION_NOT_ALLOWED :: u8 where "REP_CONNECTION_NOT_ALLOWED \<equiv> 0x02"
abbreviation (input) REP_NETWORK_UNREACHABLE :: u8 where "REP_NETWORK_UNREACHABLE \<equiv> 0x03"
abbreviation (input) REP_HOST_UNREACHABLE :: u8 where "REP_HOST_UNREACHABLE \<equiv> 0x04"
abbreviation (input) REP_CONNECTION_REFUSED :: u8 where "REP_CONNECTION_REFUSED \<equiv> 0x05"
abbreviation (input) REP_TTL_EXPIRED :: u8 where "REP_TTL_EXPIRED \<equiv> 0x06"
abbreviation (input) REP_COMMAND_NOT_SUPPORTED :: u8 where "REP_COMMAND_NOT_SUPPORTED \<equiv> 0x07"
abbreviation (input) REP_ADDRESS_TYPE_NOT_SUPPORTED :: u8 where "REP_ADDRESS_TYPE_NOT_SUPPORTED \<equiv> 0x08"

text \<open>The error codes of ssh-client/include/common.h.\<close>

datatype ErrorCode =
    Success | InvalidArgument | OutOfMemory | SocketError | ConnectionReset
  | ConnectionRefused | ConnectionTimeout | HostUnreachable | NetworkUnreachable
  | DnsResolutionFailed | SslHandshakeFailed | SslCertificateError | SslEncryptError
  | SslDecryptError | SslDisconnected | ProtocolError | BufferTooSmall | ChannelNotFound
  | ChannelClosed | WindowExhausted | Socks5AuthFailure | Socks5UnsupportedCommand
  | Socks5UnsupportedAddressType | Shutdown | IoIncomplete

record ConnectRequest =
  atyp :: u8
  host :: string
  ipv4 :: "u8 list"
  ipv6 :: "u8 list"
  port :: u16

text \<open>
  The loop \<^verbatim>\<open>for (uint8_t i = 0; i < nmethods; ++i)\<close> of \<^verbatim>\<open>ParseMethodRequest\<close>, which
  sets the flag at every offered method equal to \<^verbatim>\<open>AUTH_NONE\<close>.
\<close>

definition scan_methods :: "u8 list \<Rightarrow> nat \<Rightarrow> bool" where
  "scan_methods data nmethods =
     fold (\<lambda>i supports_no_auth. if data ! (2 + i) = AUTH_NONE then True else supports_no_auth)
       [0..<nmethods] False"

text \<open>
  \<^verbatim>\<open>int ParseMethodRequest(data, len, bool& supports_no_auth)\<close>: the returned count and
  the flag, which is cleared first on every path.
\<close>

definition ParseMethodRequest :: "u8 list \<Rightarrow> int \<times> bool" where
  "ParseMethodRequest data =
     (let len = length data in
      if len < 2 then (0, False)
      else if data ! 0 \<noteq> VERSION then (- 1, False)
      else
        let nmethods = data ! 1;
            total = 2 + unat nmethods
        in if len < total then (0, False)
           else (int total, scan_methods data (unat nmethods)))"

definition BuildMethodResponse :: "u8 \<Rightarrow> ByteBuffer" where
  "BuildMethodResponse method = [VERSION, method]"

text \<open>\<^verbatim>\<open>sprintf_s\<close> with \<^verbatim>\<open>%u\<close> on a byte, and with \<^verbatim>\<open>%02x\<close>.\<close>

definition digit_char :: "nat \<Rightarrow> char" where
  "digit_char d = (if d < 10 then char_of (48 + d) else char_of (87 + d))"

definition fmt_u :: "u8 \<Rightarrow> string" where
  "fmt_u b =
     (let n = unat b in
      (if 100 \<le> n then [digit_char (n div 100)] else []) @
      (if 10 \<le> n then [digit_char (n div 10 mod 10)] else []) @
      [digit_char (n mod 10)])"

definition fmt_02x :: "u8 \<Rightarrow> string" where
  "fmt_02x b = (let n = unat b in [digit_char (n div 16), digit_char (n mod 16)])"

definition ipv4_string :: "u8 list \<Rightarrow> string" where
  "ipv4_string a =
     fmt_u (a ! 0) @ ''.'' @ fmt_u (a ! 1) @ ''.'' @ fmt_u (a ! 2) @ ''.'' @ fmt_u (a ! 3)"

definition ipv6_string :: "u8 list \<Rightarrow> string" where
  "ipv6_string a =
     fmt_02x (a ! 0) @ fmt_02x (a ! 1) @ '':'' @ fmt_02x (a ! 2) @ fmt_02x (a ! 3) @ '':'' @
     fmt_02x (a ! 4) @ fmt_02x (a ! 5) @ '':'' @ fmt_02x (a ! 6) @ fmt_02x (a ! 7) @ '':'' @
     fmt_02x (a ! 8) @ fmt_02x (a ! 9) @ '':'' @ fmt_02x (a ! 10) @ fmt_02x (a ! 11) @ '':'' @
     fmt_02x (a ! 12) @ fmt_02x (a ! 13) @ '':'' @ fmt_02x (a ! 14) @ fmt_02x (a ! 15)"

text \<open>
  The part of \<^verbatim>\<open>ParseConnectRequest\<close> behind the \<^verbatim>\<open>switch\<close> on the address type, which
  has fixed \<^verbatim>\<open>addr_len\<close>: the length check, the address, the port and the command.
  Both branches of the final test on the command return \<^verbatim>\<open>total\<close>.
\<close>

definition ParseConnectRequest_addr ::
    "u8 list \<Rightarrow> ConnectRequest \<Rightarrow> u8 \<Rightarrow> u8 \<Rightarrow> nat \<Rightarrow> int \<times> ConnectRequest" where
  "ParseConnectRequest_addr data out cmd at addr_len =
     (let addr_start = 4;
          total = addr_start + addr_len + 2
      in if length data < total then (0, out)
         else
           let out1 =
                 (if at = ATYP_IPV4 then
                    let a = take 4 (drop addr_start data)
                    in out\<lparr> ipv4 := a, host := ipv4_string a \<rparr>
                  else if at = ATYP_DOMAIN then
                    let domain_len = data ! addr_start
                    in out\<lparr> host := map (\<lambda>b. char_of (unat b))
                                       (take (unat domain_len) (drop (addr_start + 1) data)) \<rparr>
                  else if at = ATYP_IPV6 then
                    let a = take 16 (drop addr_start data)
                    in out\<lparr> ipv6 := a, host := ipv6_string a \<rparr>
                  else out);
               port_offset = addr_start + addr_len;
               out2 = out1\<lparr> port := push_bit 8 (ucast (data ! port_offset))
                                      OR ucast (data ! (port_offset + 1)) \<rparr>
           in if cmd \<noteq> CMD_CONNECT then (int total, out2)
              else (int total, out2))"

text \<open>
  \<^verbatim>\<open>int ParseConnectRequest(data, len, ConnectRequest& out)\<close>: the returned count and the
  request object, which the caller passes in and which keeps every field the function
  does not write. \<^verbatim>\<open>out.atyp\<close> is written before the address type is checked.
\<close>

definition ParseConnectRequest :: "u8 list \<Rightarrow> ConnectRequest \<Rightarrow> int \<times> ConnectRequest" where
  "ParseConnectRequest data out =
     (let len = length data in
      if len < 4 then (0, out)
      else if data ! 0 \<noteq> VERSION then (- 1, out)
      else
        let cmd = data ! 1;
            at = data ! 3;
            out1 = out\<lparr> atyp := at \<rparr>
        in if at = ATYP_IPV4 then ParseConnectRequest_addr data out1 cmd at 4
           else if at = ATYP_DOMAIN then
             (if len < 5 then (0, out1)
              else ParseConnectRequest_addr data out1 cmd at (1 + unat (data ! 4)))
           else if at = ATYP_IPV6 then ParseConnectRequest_addr data out1 cmd at 16
           else (- 1, out1))"

text \<open>
  \<^verbatim>\<open>BuildConnectReply(reply_code, atyp, bind_addr, bind_port)\<close>; a null \<^verbatim>\<open>bind_addr\<close>
  is \<open>None\<close>.
\<close>

definition BuildConnectReply :: "u8 \<Rightarrow> u8 \<Rightarrow> u8 list option \<Rightarrow> u16 \<Rightarrow> ByteBuffer" where
  "BuildConnectReply reply_code at bind_addr bind_port =
     [VERSION, reply_code, 0x00] @
     (if at = ATYP_IPV4 then
        ATYP_IPV4 # (case bind_addr of Some a \<Rightarrow> take 4 a | None \<Rightarrow> replicate 4 0x00)
      else if at = ATYP_IPV6 then
        ATYP_IPV6 # (case bind_addr of Some a \<Rightarrow> take 16 a | None \<Rightarrow> replicate 16 0x00)
      else ATYP_IPV4 # replicate 4 0x00) @
     [ucast (drop_bit 8 bind_port), ucast (bind_port AND 0xFF)]"

text \<open>The call with the default arguments \<^verbatim>\<open>ATYP_IPV4, nullptr, 0\<close>.\<close>

definition BuildConnectReply_default :: "u8 \<Rightarrow> ByteBuffer" where
  "BuildConnectReply_default reply_code = BuildConnectReply reply_code ATYP_IPV4 None 0"

definition ErrorCodeToSocks5Reply :: "ErrorCode \<Rightarrow> u8" where
  "ErrorCodeToSocks5Reply ec =
     (if ec = Success then REP_SUCCESS
      else if ec = NetworkUnreachable then REP_NETWORK_UNREACHABLE
      else if ec = HostUnreachable then REP_HOST_UNREACHABLE
      else if ec = ConnectionRefused then REP_CONNECTION_REFUSED
      else if ec = ConnectionTimeout then REP_TTL_EXPIRED
      else REP_GENERAL_FAILURE)"

section \<open>The session's state and its outside world\<close>

text \<open>
  The encrypted transport is outside the program's core: the model keeps the byte
  buffers handed to \<^verbatim>\<open>SslTransport::Send\<close>, in call order.
\<close>

record SslTransport =
  sent :: "ByteBuffer list"

text \<open>
  The outbound TCP connection is outside the core as well: a channel either owns one
  (\<^verbatim>\<open>std::unique_ptr<TcpConnection> m_target\<close>) or not, and the calls made on the
  connections are kept, in order and tagged with the owning channel's id:
  \<^verbatim>\<open>ConnectAsync(host, port, ...)\<close>, \<^verbatim>\<open>StartReading\<close>, \<^verbatim>\<open>Send\<close> and \<^verbatim>\<open>Close\<close> (also the
  \<^verbatim>\<open>Close\<close> that the destructor \<^verbatim>\<open>~TcpConnection\<close> makes).
\<close>

datatype TcpConnection = TcpConnection

datatype TcpCall =
    Tcp_ConnectAsync u16 string u16
  | Tcp_StartReading u16
  | Tcp_Send u16 ByteBuffer
  | Tcp_Close u16

text \<open>
  What \<^verbatim>\<open>TcpConnection::ConnectAsync\<close> returns at once for a host and a port (name
  resolution, socket set-up and the start of the connect): chosen by the environment.
\<close>

type_synonym connect_env = "string \<Rightarrow> u16 \<Rightarrow> ErrorCode"

datatype ChannelState = Opening | Requesting | Connecting | Relaying | Closing | Closed

record Channel =
  m_id :: u16
  m_state :: ChannelState
  m_socks5_buf :: ByteBuffer
  m_method_done :: bool
  m_connect_req :: ConnectRequest
  m_target :: "TcpConnection option"
  m_send_window :: u32
  m_recv_window :: u32
  m_recv_window_initial :: u32
  m_recv_consumed :: u32

text \<open>
  The session. \<^verbatim>\<open>m_channels\<close> is a \<^verbatim>\<open>std::unordered_map\<close> from channel id to the owned
  channel: an association list here, whose order stands for the map's unspecified
  iteration order. \<^verbatim>\<open>m_transport\<close> is a pointer that may be null. \<open>m_on_disconnect\<close> says
  whether a callback is installed, \<open>on_disconnect_calls\<close> lists its invocations, and
  \<open>m_keepalive_timer\<close> says whether the timer handle is set.
\<close>

record MuxSession =
  m_transport :: "SslTransport option"
  m_channel_window_size :: u32
  m_keepalive_ms :: int
  m_codec :: FrameCodec
  m_channels :: "(u16 \<times> Channel) list"
  m_on_disconnect :: bool
  m_running :: bool
  m_keepalive_timer :: bool
  tcp_calls :: "TcpCall list"
  on_disconnect_calls :: "ErrorCode list"

section \<open>mux\_session.cpp: the send helpers\<close>

definition SendFrame :: "MuxSession \<Rightarrow> ByteBuffer \<Rightarrow> MuxSession" where
  "SendFrame s frame_bytes =
     (if \<not> m_running s then s
      else case m_transport s of
             None \<Rightarrow> s
           | Some t \<Rightarrow> s\<lparr> m_transport := Some (t\<lparr> sent := sent t @ [frame_bytes] \<rparr>) \<rparr>)"

definition SendChannelOpenAck :: "MuxSession \<Rightarrow> u16 \<Rightarrow> MuxSession" where
  "SendChannelOpenAck s cid = SendFrame s (BuildChannelOpenAck cid)"

definition SendChannelRequestAck :: "MuxSession \<Rightarrow> u16 \<Rightarrow> u8 list \<Rightarrow> u32 \<Rightarrow> MuxSession" where
  "SendChannelRequestAck s cid data len = SendFrame s (BuildChannelRequestAck cid data len)"

definition SendData :: "MuxSession \<Rightarrow> u16 \<Rightarrow> u8 list \<Rightarrow> u32 \<Rightarrow> MuxSession" where
  "SendData s cid data len = SendFrame s (BuildData cid data len)"

definition SendChannelClose :: "MuxSession \<Rightarrow> u16 \<Rightarrow> u8 \<Rightarrow> MuxSession" where
  "SendChannelClose s cid fl = SendFrame s (BuildChannelClose cid fl)"

definition SendChannelCloseAck :: "MuxSession \<Rightarrow> u16 \<Rightarrow> MuxSession" where
  "SendChannelCloseAck s cid = SendFrame s (BuildChannelCloseAck cid)"

definition SendWindowUpdate :: "MuxSession \<Rightarrow> u16 \<Rightarrow> u32 \<Rightarrow> MuxSession" where
  "SendWindowUpdate s cid increment = SendFrame s (BuildWindowUpdate cid increment)"

section \<open>channel.cpp: the channel\<close>

text \<open>
  A channel reaches its session through \<^verbatim>\<open>m_session\<close> and its connection through
  \<^verbatim>\<open>m_target\<close>; each member function is a function of the session and the channel that
  returns both. The session's part that a channel function changes is what it sends and
  the calls on the connection.
\<close>

text \<open>
  The constructor. It leaves the scalar fields of \<^verbatim>\<open>m_connect_req\<close> uninitialised; they
  are written by \<^verbatim>\<open>ParseConnectRequest\<close> before anything reads them, and are zero here.
\<close>

definition ConnectRequest_init :: ConnectRequest where
  "ConnectRequest_init =
     \<lparr> atyp = 0, host = [], ipv4 = replicate 4 0, ipv6 = replicate 16 0, port = 0 \<rparr>"

definition Channel_init :: "u16 \<Rightarrow> u32 \<Rightarrow> Channel" where
  "Channel_init cid window_size =
     \<lparr> m_id = cid, m_state = Opening, m_socks5_buf = [], m_method_done = False,
       m_connect_req = ConnectRequest_init, m_target = None,
       m_send_window = window_size, m_recv_window = window_size,
       m_recv_window_initial = window_size, m_recv_consumed = 0 \<rparr>"

text \<open>\<^verbatim>\<open>m_target->Close()\<close>, and \<^verbatim>\<open>m_target.reset()\<close>, whose destructor closes too.\<close>

definition target_Close :: "MuxSession \<Rightarrow> Channel \<Rightarrow> MuxSession" where
  "target_Close s ch = s\<lparr> tcp_calls := tcp_calls s @ [Tcp_Close (m_id ch)] \<rparr>"

definition target_reset :: "MuxSession \<Rightarrow> Channel \<Rightarrow> MuxSession \<times> Channel" where
  "target_reset s ch =
     (case m_target ch of
        None \<Rightarrow> (s, ch)
      | Some t \<Rightarrow> (target_Close s ch, ch\<lparr> m_target := None \<rparr>))"

definition ForceClose :: "MuxSession \<Rightarrow> Channel \<Rightarrow> MuxSession \<times> Channel" where
  "ForceClose s ch =
     (if m_state ch = Closed then (s, ch)
      else
        let (s1, ch1) = (if m_target ch \<noteq> None then target_reset (target_Close s ch) ch
                         else (s, ch))
        in (s1, ch1\<lparr> m_state := Closed \<rparr>))"

text \<open>
  The destructor \<^verbatim>\<open>~Channel\<close>: \<^verbatim>\<open>ForceClose\<close>, then the members are destroyed, of which
  \<^verbatim>\<open>m_target\<close> closes a connection that is still owned.
\<close>

definition Channel_dtor :: "MuxSession \<Rightarrow> Channel \<Rightarrow> MuxSession" where
  "Channel_dtor s ch = (let (s1, ch1) = ForceClose s ch in fst (target_reset s1 ch1))"

definition OnOpen :: "MuxSession \<Rightarrow> Channel \<Rightarrow> MuxSession \<times> Channel" where
  "OnOpen s ch =
     (let ch1 = ch\<lparr> m_state := Opening \<rparr>;
          s1 = SendChannelOpenAck s (m_id ch1)
      in (s1, ch1\<lparr> m_state := Requesting \<rparr>))"

definition SendCloseToMux :: "MuxSession \<Rightarrow> Channel \<Rightarrow> u8 \<Rightarrow> MuxSession" where
  "SendCloseToMux s ch fl = SendChannelClose s (m_id ch) fl"

text \<open>
  \<^verbatim>\<open>OnTargetConnected\<close>. A channel in state \<^verbatim>\<open>Connecting\<close> owns its connection
  (\<^verbatim>\<open>ProcessSocks5\<close> creates it on entering the state); the success path calls
  \<^verbatim>\<open>StartReading\<close> on it.
\<close>

definition OnTargetConnected :: "MuxSession \<Rightarrow> Channel \<Rightarrow> ErrorCode \<Rightarrow> MuxSession \<times> Channel" where
  "OnTargetConnected s ch ec =
     (if m_state ch \<noteq> Connecting then (s, ch)
      else if ec \<noteq> Success then
        let reply_code = ErrorCodeToSocks5Reply ec;
            reply = BuildConnectReply_default reply_code;
            s1 = SendChannelRequestAck s (m_id ch) reply (of_nat (length reply));
            s2 = SendCloseToMux s1 ch FRAME_FLAG_RST;
            ch1 = ch\<lparr> m_state := Closed \<rparr>
        in target_reset s2 ch1
      else
        let reply = BuildConnectReply_default REP_SUCCESS;
            s1 = SendChannelRequestAck s (m_id ch) reply (of_nat (length reply));
            ch1 = ch\<lparr> m_state := Relaying \<rparr>
        in (s1\<lparr> tcp_calls := tcp_calls s1 @ [Tcp_StartReading (m_id ch1)] \<rparr>, ch1))"

text \<open>
  The second half of \<^verbatim>\<open>ProcessSocks5\<close>, from the comment "Parse connect request" on.
  \<^verbatim>\<open>ParseConnectRequest\<close> writes to \<^verbatim>\<open>m_connect_req\<close> whatever it returns. The assignment
  \<^verbatim>\<open>m_target = std::make_unique<TcpConnection>()\<close> destroys a connection that the channel
  still owns.
\<close>

definition ProcessSocks5_connect :: "connect_env \<Rightarrow> MuxSession \<Rightarrow> Channel \<Rightarrow> MuxSession \<times> Channel" where
  "ProcessSocks5_connect env s ch =
     (let buf = m_socks5_buf ch in
      if length buf = 0 then (s, ch)
      else
        let (consumed, req) = ParseConnectRequest buf (m_connect_req ch);
            ch1 = ch\<lparr> m_connect_req := req \<rparr>
        in if consumed = 0 then (s, ch1)
           else if consumed < 0 then
             let reply = BuildConnectReply_default REP_GENERAL_FAILURE;
                 s1 = SendChannelRequestAck s (m_id ch1) reply (of_nat (length reply));
                 s2 = SendCloseToMux s1 ch1 FRAME_FLAG_RST
             in (s2, ch1\<lparr> m_state := Closed \<rparr>)
           else
             let ch2 = ch1\<lparr> m_socks5_buf := drop (nat consumed) (m_socks5_buf ch1),
                           m_state := Connecting \<rparr>;
                 (s0, ch2') = target_reset s ch2;
                 ch3 = ch2'\<lparr> m_target := Some TcpConnection \<rparr>;
                 ec = env (host (m_connect_req ch3)) (port (m_connect_req ch3));
                 s1 = s0\<lparr> tcp_calls := tcp_calls s0 @
                             [Tcp_ConnectAsync (m_id ch3) (host (m_connect_req ch3))
                                (port (m_connect_req ch3))] \<rparr>
             in if ec \<noteq> Success then OnTargetConnected s1 ch3 ec else (s1, ch3))"

definition ProcessSocks5 :: "connect_env \<Rightarrow> MuxSession \<Rightarrow> Channel \<Rightarrow> MuxSession \<times> Channel" where
  "ProcessSocks5 env s ch =
     (if \<not> m_method_done ch then
        let (consumed, supports_no_auth) = ParseMethodRequest (m_socks5_buf ch) in
        if consumed = 0 then (s, ch)
        else if consumed < 0 \<or> \<not> supports_no_auth then
          let resp = BuildMethodResponse AUTH_NO_ACCEPTABLE;
              s1 = SendChannelRequestAck s (m_id ch) resp (of_nat (length resp));
              s2 = SendCloseToMux s1 ch FRAME_FLAG_RST
          in (s2, ch\<lparr> m_state := Closed \<rparr>)
        else
          let resp = BuildMethodResponse AUTH_NONE;
              s1 = SendChannelRequestAck s (m_id ch) resp (of_nat (length resp));
              ch1 = ch\<lparr> m_socks5_buf := drop (nat consumed) (m_socks5_buf ch),
                        m_method_done := True \<rparr>
          in ProcessSocks5_connect env s1 ch1
      else ProcessSocks5_connect env s ch)"

definition OnRequest :: "connect_env \<Rightarrow> MuxSession \<Rightarrow> Channel \<Rightarrow> u8 list \<Rightarrow> MuxSession \<times> Channel" where
  "OnRequest env s ch data =
     (if m_state ch \<noteq> Requesting then (s, ch)
      else ProcessSocks5 env s (ch\<lparr> m_socks5_buf := m_socks5_buf ch @ data \<rparr>))"

definition OnData :: "MuxSession \<Rightarrow> Channel \<Rightarrow> u8 list \<Rightarrow> MuxSession \<times> Channel" where
  "OnData s ch data =
     (if m_state ch \<noteq> Relaying then (s, ch)
      else
        let ch1 = ch\<lparr> m_recv_consumed := m_recv_consumed ch + of_nat (length data) \<rparr>;
            s1 = (if m_target ch1 \<noteq> None
                  then s\<lparr> tcp_calls := tcp_calls s @ [Tcp_Send (m_id ch1) data] \<rparr>
                  else s)
        in if m_recv_window_initial ch1 div 2 \<le> m_recv_consumed ch1 then
             let s2 = SendWindowUpdate s1 (m_id ch1) (m_recv_consumed ch1);
                 ch2 = ch1\<lparr> m_recv_window := m_recv_window ch1 + m_recv_consumed ch1 \<rparr>
             in (s2, ch2\<lparr> m_recv_consumed := 0 \<rparr>)
           else (s1, ch1))"

definition OnWindowUpdate :: "Channel \<Rightarrow> u32 \<Rightarrow> Channel" where
  "OnWindowUpdate ch increment = ch\<lparr> m_send_window := m_send_window ch + increment \<rparr>"

definition OnClose :: "MuxSession \<Rightarrow> Channel \<Rightarrow> u8 \<Rightarrow> MuxSession \<times> Channel" where
  "OnClose s ch fl =
     (let s1 = SendChannelCloseAck s (m_id ch);
          (s2, ch1) = (if m_target ch \<noteq> None then target_reset (target_Close s1 ch) ch
                       else (s1, ch))
      in (s2, ch1\<lparr> m_state := Closed \<rparr>))"

text \<open>
  The loop of \<^verbatim>\<open>SendToMux\<close>. \<^verbatim>\<open>chunk\<close> is a \<^verbatim>\<open>uint32_t\<close>; it is clamped to the send window
  only where the window is above zero.
\<close>

function SendToMux_loop :: "u8 list \<Rightarrow> nat \<Rightarrow> MuxSession \<Rightarrow> Channel \<Rightarrow> MuxSession \<times> Channel" where
  "SendToMux_loop data offset s ch =
     (if offset < length data then
        let chunk0 = (of_nat (min (length data - offset) FRAME_MAX_PAYLOAD) :: u32);
            chunk = (if 0 < m_send_window ch then min chunk0 (m_send_window ch) else chunk0);
            ch1 = (if 0 < m_send_window ch
                   then ch\<lparr> m_send_window := m_send_window ch - chunk \<rparr> else ch);
            s1 = SendData s (m_id ch1) (drop offset data) chunk
        in SendToMux_loop data (offset + unat chunk) s1 ch1
      else (s, ch))"
  by pat_completeness auto
termination
proof (relation "measure (\<lambda>(data, offset, s, ch). length data - offset)", goal_cases)
  case 1
  show ?case by simp
next
  case (2 data offset s ch chunk0 chunk ch1 s1)
  have "min (length data - offset) FRAME_MAX_PAYLOAD < 2 ^ LENGTH(32)"
    by simp
  then have u0: "unat chunk0 = min (length data - offset) FRAME_MAX_PAYLOAD"
    unfolding 2(2) unat_of_nat by (rule mod_less)
  with 2(1) have "0 < unat chunk0"
    by simp
  moreover have "0 < m_send_window ch \<Longrightarrow> 0 < unat (m_send_window ch)"
    by (simp add: word_less_nat_alt)
  ultimately have "0 < unat chunk"
    unfolding 2(3) by (simp add: min_def)
  with 2(1) show ?case
    by simp
qed

declare SendToMux_loop.simps [simp del]

definition SendToMux :: "MuxSession \<Rightarrow> Channel \<Rightarrow> u8 list \<Rightarrow> MuxSession \<times> Channel" where
  "SendToMux s ch data = SendToMux_loop data 0 s ch"

definition OnTargetData :: "MuxSession \<Rightarrow> Channel \<Rightarrow> u8 list \<Rightarrow> MuxSession \<times> Channel" where
  "OnTargetData s ch data =
     (if m_state ch \<noteq> Relaying then (s, ch) else SendToMux s ch data)"

definition OnTargetDisconnected :: "MuxSession \<Rightarrow> Channel \<Rightarrow> ErrorCode \<Rightarrow> MuxSession \<times> Channel" where
  "OnTargetDisconnected s ch ec =
     (let (s1, ch1) =
            (if m_state ch = Relaying \<or> m_state ch = Connecting
             then (SendCloseToMux s ch FRAME_FLAG_FIN, ch\<lparr> m_state := Closing \<rparr>)
             else (s, ch))
      in if m_target ch1 \<noteq> None then (target_Close s1 ch1, ch1) else (s1, ch1))"

section \<open>mux\_session.cpp: the registry and the dispatcher\<close>

definition FindChannel :: "MuxSession \<Rightarrow> u16 \<Rightarrow> Channel option" where
  "FindChannel s cid = map_of (m_channels s) cid"

text \<open>
  A handler changes a channel through the pointer that \<^verbatim>\<open>FindChannel\<close> returned; in the
  model the changed channel is written back under its id.
\<close>

definition store_channel :: "MuxSession \<Rightarrow> u16 \<Rightarrow> Channel \<Rightarrow> MuxSession" where
  "store_channel s cid ch = s\<lparr> m_channels := AList.update cid ch (m_channels s) \<rparr>"

text \<open>\<^verbatim>\<open>RemoveChannel\<close>: \<^verbatim>\<open>erase\<close> destroys the channel that the map owns.\<close>

definition RemoveChannel :: "MuxSession \<Rightarrow> u16 \<Rightarrow> MuxSession" where
  "RemoveChannel s cid =
     (case map_of (m_channels s) cid of
        None \<Rightarrow> s
      | Some ch \<Rightarrow>
          let s1 = Channel_dtor s ch
          in s1\<lparr> m_channels := AList.delete cid (m_channels s1) \<rparr>)"

text \<open>
  \<^verbatim>\<open>CloseAllChannels\<close>: the loop that calls \<^verbatim>\<open>ForceClose\<close> on every channel, then
  \<^verbatim>\<open>clear\<close>, which destroys every channel.
\<close>

fun ForceClose_all ::
    "MuxSession \<Rightarrow> (u16 \<times> Channel) list \<Rightarrow> MuxSession \<times> (u16 \<times> Channel) list" where
  "ForceClose_all s [] = (s, [])"
| "ForceClose_all s ((cid, ch) # rest) =
     (let (s1, ch1) = ForceClose s ch;
          (s2, rest1) = ForceClose_all s1 rest
      in (s2, (cid, ch1) # rest1))"

fun destroy_all :: "MuxSession \<Rightarrow> (u16 \<times> Channel) list \<Rightarrow> MuxSession" where
  "destroy_all s [] = s"
| "destroy_all s ((cid, ch) # rest) = destroy_all (Channel_dtor s ch) rest"

definition CloseAllChannels :: "MuxSession \<Rightarrow> MuxSession" where
  "CloseAllChannels s =
     (let (s1, chans) = ForceClose_all s (m_channels s);
          s2 = destroy_all s1 chans
      in s2\<lparr> m_channels := [] \<rparr>)"

text \<open>
  \<^verbatim>\<open>HandleChannelOpen\<close>: \<^verbatim>\<open>m_channels[id] = std::move(ch)\<close> destroys the channel that the
  map held under the id, if there was one.
\<close>

definition HandleChannelOpen :: "MuxSession \<Rightarrow> Frame \<Rightarrow> MuxSession" where
  "HandleChannelOpen s frame =
     (let cid = channel_id (header frame);
          ch = Channel_init cid (m_channel_window_size s);
          s1 = (case map_of (m_channels s) cid of
                  None \<Rightarrow> s
                | Some old \<Rightarrow> Channel_dtor s old);
          s2 = s1\<lparr> m_channels := AList.update cid ch (m_channels s1) \<rparr>;
          (s3, ch1) = OnOpen s2 ch
      in store_channel s3 cid ch1)"

definition HandleChannelRequest :: "connect_env \<Rightarrow> MuxSession \<Rightarrow> Frame \<Rightarrow> MuxSession" where
  "HandleChannelRequest env s frame =
     (case FindChannel s (channel_id (header frame)) of
        None \<Rightarrow> s
      | Some ch \<Rightarrow>
          let (s1, ch1) = OnRequest env s ch (payload frame)
          in store_channel s1 (channel_id (header frame)) ch1)"

definition HandleData :: "MuxSession \<Rightarrow> Frame \<Rightarrow> MuxSession" where
  "HandleData s frame =
     (case FindChannel s (channel_id (header frame)) of
        None \<Rightarrow> s
      | Some ch \<Rightarrow>
          let (s1, ch1) = OnData s ch (payload frame)
          in store_channel s1 (channel_id (header frame)) ch1)"

definition HandleChannelClose :: "MuxSession \<Rightarrow> Frame \<Rightarrow> MuxSession" where
  "HandleChannelClose s frame =
     (case FindChannel s (channel_id (header frame)) of
        None \<Rightarrow> SendChannelCloseAck s (channel_id (header frame))
      | Some ch \<Rightarrow>
          let (s1, ch1) = OnClose s ch (flags (header frame));
              s2 = store_channel s1 (channel_id (header frame)) ch1
          in if m_state ch1 = Closed then RemoveChannel s2 (channel_id (header frame))
             else s2)"

definition HandleChannelCloseAck :: "MuxSession \<Rightarrow> Frame \<Rightarrow> MuxSession" where
  "HandleChannelCloseAck s frame =
     (case FindChannel s (channel_id (header frame)) of
        None \<Rightarrow> s
      | Some ch \<Rightarrow>
          let (s1, ch1) = ForceClose s ch;
              s2 = store_channel s1 (channel_id (header frame)) ch1
          in RemoveChannel s2 (channel_id (header frame)))"

definition HandlePing :: "MuxSession \<Rightarrow> Frame \<Rightarrow> MuxSession" where
  "HandlePing s frame = SendFrame s BuildPong"

definition HandleWindowUpdate :: "MuxSession \<Rightarrow> Frame \<Rightarrow> MuxSession" where
  "HandleWindowUpdate s frame =
     (if length (payload frame) < 4 then s
      else
        let p = payload frame;
            increment = rd32 (p ! 0) (p ! 1) (p ! 2) (p ! 3)
        in case FindChannel s (channel_id (header frame)) of
             None \<Rightarrow> s
           | Some ch \<Rightarrow> store_channel s (channel_id (header frame)) (OnWindowUpdate ch increment))"

definition DispatchFrame :: "connect_env \<Rightarrow> MuxSession \<Rightarrow> Frame \<Rightarrow> MuxSession" where
  "DispatchFrame env s frame =
     (let ft = type (header frame) in
      if ft = FrameType_u8 ChannelOpen then HandleChannelOpen s frame
      else if ft = FrameType_u8 ChannelRequest then HandleChannelRequest env s frame
      else if ft = FrameType_u8 Data then HandleData s frame
      else if ft = FrameType_u8 ChannelClose then HandleChannelClose s frame
      else if ft = FrameType_u8 ChannelCloseAck then HandleChannelCloseAck s frame
      else if ft = FrameType_u8 Ping then HandlePing s frame
      else if ft = FrameType_u8 WindowUpdate then HandleWindowUpdate s frame
      else s)"

text \<open>
  \<^verbatim>\<open>OnDataReceived\<close>: feed the codec with an empty frame vector, then dispatch every
  frame it holds afterwards.
\<close>

definition OnDataReceived :: "connect_env \<Rightarrow> MuxSession \<Rightarrow> u8 list \<Rightarrow> MuxSession" where
  "OnDataReceived env s data =
     (let (c, frames) = Feed (m_codec s) data []
      in fold (\<lambda>frame s1. DispatchFrame env s1 frame) frames (s\<lparr> m_codec := c \<rparr>))"

definition StartKeepaliveTimer :: "MuxSession \<Rightarrow> MuxSession" where
  "StartKeepaliveTimer s =
     (if m_keepalive_ms s \<le> 0 then s else s\<lparr> m_keepalive_timer := True \<rparr>)"

definition StopKeepaliveTimer :: "MuxSession \<Rightarrow> MuxSession" where
  "StopKeepaliveTimer s =
     (if m_keepalive_timer s then s\<lparr> m_keepalive_timer := False \<rparr> else s)"

definition KeepaliveTimerCallback :: "MuxSession \<Rightarrow> MuxSession" where
  "KeepaliveTimerCallback s = (if m_running s then SendFrame s BuildPing else s)"

text \<open>
  The constructor, \<^verbatim>\<open>Start\<close>, \<^verbatim>\<open>Shutdown\<close> and \<^verbatim>\<open>OnTransportDisconnected\<close>. The two
  member functions carry the class name here, \<^verbatim>\<open>Shutdown\<close> being an error code as well.
\<close>

definition MuxSession_init :: "SslTransport option \<Rightarrow> u32 \<Rightarrow> int \<Rightarrow> MuxSession" where
  "MuxSession_init transport channel_window_size keepalive_ms =
     \<lparr> m_transport = transport, m_channel_window_size = channel_window_size,
       m_keepalive_ms = keepalive_ms, m_codec = FrameCodec_init, m_channels = [],
       m_on_disconnect = False, m_running = False, m_keepalive_timer = False,
       tcp_calls = [], on_disconnect_calls = [] \<rparr>"

definition MuxSession_Start :: "MuxSession \<Rightarrow> MuxSession" where
  "MuxSession_Start s = StartKeepaliveTimer (s\<lparr> m_on_disconnect := True, m_running := True \<rparr>)"

definition MuxSession_Shutdown :: "MuxSession \<Rightarrow> MuxSession" where
  "MuxSession_Shutdown s =
     (if \<not> m_running s then s
      else CloseAllChannels (StopKeepaliveTimer (s\<lparr> m_running := False \<rparr>)))"

definition OnTransportDisconnected :: "MuxSession \<Rightarrow> ErrorCode \<Rightarrow> MuxSession" where
  "OnTransportDisconnected s ec =
     (let s1 = CloseAllChannels (StopKeepaliveTimer (s\<lparr> m_running := False \<rparr>))
      in if m_on_disconnect s1
         then s1\<lparr> on_disconnect_calls := on_disconnect_calls s1 @ [ec] \<rparr> else s1)"

section \<open>Vocabulary of the statements\<close>

text \<open>
  A buffer on which the inner loop of \<^verbatim>\<open>Feed\<close> stops at once, without output: it holds
  less than a header, or a header of admissible length whose payload is not complete.
  Every buffer that \<^verbatim>\<open>Feed\<close> leaves behind is of this kind.
\<close>

definition pending :: "u8 list \<Rightarrow> bool" where
  "pending buf \<longleftrightarrow>
     length buf < FRAME_HEADER_SIZE \<or>
     (unat (payload_length (read_header buf)) \<le> FRAME_MAX_PAYLOAD \<and>
      length buf < FRAME_HEADER_SIZE + unat (payload_length (read_header buf)))"

text \<open>The bytes of a frame on the wire, and the frames whose header states their payload's
  length, which is at most \<^verbatim>\<open>FRAME_MAX_PAYLOAD\<close>.\<close>

definition wire :: "Frame \<Rightarrow> u8 list" where
  "wire f = header_bytes (header f) @ payload f"

definition well_formed :: "Frame \<Rightarrow> bool" where
  "well_formed f \<longleftrightarrow>
     length (payload f) \<le> FRAME_MAX_PAYLOAD \<and>
     payload_length (header f) = of_nat (length (payload f))"

text \<open>Successive calls of \<^verbatim>\<open>Feed\<close>, one per chunk, each with an empty frame vector (as
  \<^verbatim>\<open>OnDataReceived\<close> calls it); the outputs are concatenated.\<close>

fun Feed_chunks :: "FrameCodec \<Rightarrow> u8 list list \<Rightarrow> FrameCodec \<times> Frame list" where
  "Feed_chunks c [] = (c, [])"
| "Feed_chunks c (chunk # rest) =
     (let (c1, out1) = Feed c chunk [];
          (c2, out2) = Feed_chunks c1 rest
      in (c2, out1 @ out2))"

text \<open>A tuple (type, flags, channel id, payload): the frame it stands for, and its
  encoding by \<^verbatim>\<open>Encode\<close> with the payload's length.\<close>

definition decoded :: "FrameType \<times> u8 \<times> u16 \<times> u8 list \<Rightarrow> Frame" where
  "decoded x =
     (case x of (ty, fl, cid, p) \<Rightarrow>
        \<lparr> header = \<lparr> type = FrameType_u8 ty, flags = fl, channel_id = cid,
                       payload_length = of_nat (length p) \<rparr>,
          payload = p \<rparr>)"

definition encoded :: "FrameType \<times> u8 \<times> u16 \<times> u8 list \<Rightarrow> u8 list" where
  "encoded x = (case x of (ty, fl, cid, p) \<Rightarrow> Encode ty fl cid (Some p) (of_nat (length p)))"


text \<open>An environment in which every \<^verbatim>\<open>ConnectAsync\<close> call starts the connect.\<close>

definition always_connects :: connect_env where
  "always_connects h p = Success"


text \<open>
  The SOCKS5 messages: a method selection that offers the methods \<open>ms\<close>, and a request
  with command, reserved byte, address type, address section and the two port bytes.
  The address section is four bytes for IPv4, sixteen for IPv6, and the length byte
  followed by the name for a domain. \<open>be16\<close> is the port that two bytes in network order
  stand for.
\<close>

definition method_message :: "u8 list \<Rightarrow> u8 list" where
  "method_message ms = [VERSION, of_nat (length ms)] @ ms"

definition connect_message :: "u8 \<Rightarrow> u8 \<Rightarrow> u8 \<Rightarrow> u8 list \<Rightarrow> u8 \<Rightarrow> u8 \<Rightarrow> u8 list" where
  "connect_message cmd rsv at addr ph pl = [VERSION, cmd, rsv, at] @ addr @ [ph, pl]"

definition be16 :: "u8 \<Rightarrow> u8 \<Rightarrow> u16" where
  "be16 ph pl = push_bit 8 (ucast ph) OR ucast pl"


text \<open>
  What holds of every session that the constructor, \<^verbatim>\<open>Start\<close>, \<^verbatim>\<open>OnDataReceived\<close> and
  \<^verbatim>\<open>Shutdown\<close> produce: the codec's buffer is one that \<^verbatim>\<open>Feed\<close> leaves behind, and the
  registry has one entry per id.
\<close>

definition consistent :: "MuxSession \<Rightarrow> bool" where
  "consistent s \<longleftrightarrow>
     pending (m_buffer (m_codec s)) \<and> distinct (map fst (m_channels s))"


text \<open>A session that was constructed over a transport with an empty log, with the default
  window of 262144 bytes and keepalive interval, and started.\<close>

definition started :: MuxSession where
  "started = MuxSession_Start (MuxSession_init (Some \<lparr> sent = [] \<rparr>) 262144 30000)"

section \<open>The framing codec: lemmas\<close>

lemma rd16_le16: "rd16 (ucast w) (ucast (drop_bit 8 w)) = w"
  unfolding rd16_def
  by (rule bit_word_eqI) (auto simp: bit_simps)

lemma rd32_le32:
  "rd32 (ucast w) (ucast (drop_bit 8 w)) (ucast (drop_bit 16 w)) (ucast (drop_bit 24 w)) = w"
proof (rule bit_word_eqI)
  fix n :: nat
  assume n: "n < LENGTH(32)"
  consider "n < 8" | "8 \<le> n \<and> n < 16" | "16 \<le> n \<and> n < 24" | "24 \<le> n \<and> n < 32"
    using n by fastforce
  then show "bit (rd32 (ucast w) (ucast (drop_bit 8 w)) (ucast (drop_bit 16 w))
                   (ucast (drop_bit 24 w))) n = bit w n"
    unfolding rd32_def by cases (auto simp: bit_simps)
qed

lemma length_header_bytes [simp]: "length (header_bytes hdr) = 8"
  by (simp add: header_bytes_def le16_def le32_def)

lemma read_header_bytes [simp]: "read_header (header_bytes hdr @ rest) = hdr"
  by (simp add: read_header_def header_bytes_def le16_def le32_def rd16_le16 rd32_le32)

lemma read_header_append: "FRAME_HEADER_SIZE \<le> length x \<Longrightarrow> read_header (x @ y) = read_header x"
  by (auto simp: read_header_def nth_append)

lemma Feed_parse_pending: "pending buf \<Longrightarrow> Feed_parse buf acc = (Break, buf, acc)"
  by (subst Feed_parse.simps) (auto simp: pending_def Let_def)

lemma Feed_parse_Break_pending:
  "Feed_parse buf acc = (Break, b, fs) \<Longrightarrow> pending b"
proof (induction buf acc rule: Feed_parse.induct)
  case (1 buf out_frames)
  show ?case
  proof (cases "pending buf")
    case True
    with "1.prems" show ?thesis by (simp add: Feed_parse_pending)
  next
    case False
    then have hd: "FRAME_HEADER_SIZE \<le> length buf" by (auto simp: pending_def)
    show ?thesis
    proof (cases "FRAME_MAX_PAYLOAD < unat (payload_length (read_header buf))")
      case True
      with hd "1.prems" show ?thesis by (simp add: Feed_parse.simps [of buf])
    next
      case small: False
      with False hd have full: "\<not> length buf < FRAME_HEADER_SIZE + unat (payload_length (read_header buf))"
        by (auto simp: pending_def)
      from hd small full "1.prems" "1.IH" [OF hd refl small refl full] show ?thesis
        by (simp add: Feed_parse.simps [of buf] Let_def)
    qed
  qed
qed

lemma Feed_parse_append:
  "Feed_parse (x @ y) acc =
     (case Feed_parse x acc of
        (Return, b, fs) \<Rightarrow> (Return, b, fs)
      | (Break, b, fs) \<Rightarrow> Feed_parse (b @ y) fs)"
proof (induction x acc rule: Feed_parse.induct)
  case (1 buf out_frames)
  show ?case
  proof (cases "pending buf")
    case True
    then show ?thesis by (simp add: Feed_parse_pending)
  next
    case False
    then have hd: "FRAME_HEADER_SIZE \<le> length buf" by (auto simp: pending_def)
    then have rh: "read_header (buf @ y) = read_header buf" by (rule read_header_append)
    show ?thesis
    proof (cases "FRAME_MAX_PAYLOAD < unat (payload_length (read_header buf))")
      case True
      with hd rh show ?thesis
        by (simp add: Feed_parse.simps [of buf] Feed_parse.simps [of "buf @ y"])
    next
      case small: False
      with False hd have full: "\<not> length buf < FRAME_HEADER_SIZE + unat (payload_length (read_header buf))"
        by (auto simp: pending_def)
      from hd small full rh "1.IH" [OF hd refl small refl full] show ?thesis
        by (simp add: Feed_parse.simps [of buf] Feed_parse.simps [of "buf @ y"] Let_def)
    qed
  qed
qed

lemma Feed_parse_acc:
  "Feed_parse x acc = (case Feed_parse x [] of (e, b, fs) \<Rightarrow> (e, b, acc @ fs))"
proof (induction x arbitrary: acc rule: length_induct)
  case (1 x)
  show ?case
  proof (cases "pending x")
    case True
    then show ?thesis by (simp add: Feed_parse_pending)
  next
    case False
    then have hd: "FRAME_HEADER_SIZE \<le> length x" by (auto simp: pending_def)
    show ?thesis
    proof (cases "FRAME_MAX_PAYLOAD < unat (payload_length (read_header x))")
      case True
      with hd show ?thesis
        by (simp add: Feed_parse.simps [of x])
    next
      case small: False
      with False hd have full: "\<not> length x < FRAME_HEADER_SIZE + unat (payload_length (read_header x))"
        by (auto simp: pending_def)
      let ?r = "drop (FRAME_HEADER_SIZE + unat (payload_length (read_header x))) x"
      have "length ?r < length x" using hd by simp
      with 1 have IH: "\<And>acc. Feed_parse ?r acc = (case Feed_parse ?r [] of (e, b, fs) \<Rightarrow> (e, b, acc @ fs))"
        by blast
      from hd small full show ?thesis
        by (simp add: Feed_parse.simps [of x] Let_def IH [of "acc @ _"] IH [of "[_]"] split: prod.splits)
    qed
  qed
qed

lemma Feed_loop_stream:
  "pending buf \<Longrightarrow>
   Feed_loop data offset buf acc = snd (Feed_parse (buf @ drop offset data) acc)"
proof (induction data offset buf acc rule: Feed_loop.induct)
  case (1 data offset buf out_frames)
  show ?case
  proof (cases "offset < length data")
    case False
    with "1.prems" show ?thesis
      by (simp add: Feed_loop.simps [of data offset] Feed_parse_pending)
  next
    case True
    define to_copy where "to_copy = min (length data - offset) (m_buffer_size - length buf)"
    define buf1 where "buf1 = buf @ take to_copy (drop offset data)"
    have split: "buf @ drop offset data = buf1 @ drop (offset + to_copy) data"
      by (simp add: buf1_def add.commute [of offset] flip: drop_drop)
    have step: "Feed_loop data offset buf out_frames =
        (case Feed_parse buf1 out_frames of
           (Return, b, fs) \<Rightarrow> (b, fs)
         | (Break, b, fs) \<Rightarrow> Feed_loop data (offset + to_copy) b fs)"
      using True by (subst Feed_loop.simps)
        (simp add: Let_def to_copy_def buf1_def split: prod.splits loop_exit.splits)
    obtain e b2 o2 where fp: "Feed_parse buf1 out_frames = (e, b2, o2)"
      by (cases "Feed_parse buf1 out_frames") auto
    show ?thesis
    proof (cases e)
      case Return
      with fp show ?thesis
        unfolding split Feed_parse_append [of buf1] step by simp
    next
      case Break
      with fp have "pending b2" by (auto dest: Feed_parse_Break_pending)
      from fp Break have fp': "(Break, (b2, o2)) = Feed_parse buf1 out_frames"
        by simp
      have "Feed_loop data (offset + to_copy) b2 o2 =
            snd (Feed_parse (b2 @ drop (offset + to_copy) data) o2)"
        using "1.IH" [OF True refl refl refl refl fp' [unfolded buf1_def to_copy_def] refl refl
            \<open>pending b2\<close>]
        by (simp only: to_copy_def)
      with fp Break show ?thesis
        unfolding split Feed_parse_append [of buf1] step by simp
    qed
  qed
qed


lemma unat_of_nat_u32: "n \<le> FRAME_MAX_PAYLOAD \<Longrightarrow> unat (of_nat n :: u32) = n"
  by (simp add: unat_of_nat)

lemma Feed_parse_wire:
  assumes "well_formed f"
  shows "Feed_parse (wire f @ rest) acc = Feed_parse rest (acc @ [f])"
proof -
  from assms have len: "unat (payload_length (header f)) = length (payload f)"
    and le: "length (payload f) \<le> FRAME_MAX_PAYLOAD"
    by (simp_all add: well_formed_def unat_of_nat_u32)
  have rh: "read_header (wire f @ rest) = header f"
    by (simp add: wire_def)
  have f: "\<lparr> header = header f, payload = payload f \<rparr> = f"
    by simp
  from le show ?thesis
    by (subst Feed_parse.simps) (simp add: Let_def rh len, simp add: wire_def f)
qed

lemma Feed_parse_wires:
  "\<forall>f\<in>set fs. well_formed f \<Longrightarrow>
   Feed_parse (concat (map wire fs) @ rest) acc = Feed_parse rest (acc @ fs)"
  by (induction fs arbitrary: acc) (simp_all add: Feed_parse_wire)

lemma Feed_parse_oversized:
  "FRAME_MAX_PAYLOAD < unat (payload_length hdr) \<Longrightarrow>
   Feed_parse (header_bytes hdr @ rest) acc = (Return, [], acc)"
  by (subst Feed_parse.simps) simp

lemma Feed_stream:
  "pending (m_buffer c) \<Longrightarrow>
   Feed c data acc =
     (case Feed_parse (m_buffer c @ data) acc of (e, b, fs) \<Rightarrow> (c\<lparr> m_buffer := b \<rparr>, fs))"
  by (simp add: Feed_def Feed_loop_stream split: prod.splits)

lemma Encode_wire:
  "length p \<le> FRAME_MAX_PAYLOAD \<Longrightarrow> encoded (ty, fl, cid, p) = wire (decoded (ty, fl, cid, p))"
  by (cases "p = []") (auto simp: encoded_def decoded_def Encode_def wire_def unat_of_nat_u32 word_less_nat_alt)

lemma well_formed_decoded:
  "length p \<le> FRAME_MAX_PAYLOAD \<Longrightarrow> well_formed (decoded (ty, fl, cid, p))"
  by (simp add: well_formed_def decoded_def)

lemma pending_Nil [simp]: "pending []"
  by (simp add: pending_def)

lemma Feed_chunks_stream:
  "pending (m_buffer c) \<Longrightarrow>
   Feed_parse (m_buffer c @ concat chunks) [] = (Break, b, fs) \<Longrightarrow>
   Feed_chunks c chunks = (c\<lparr> m_buffer := b \<rparr>, fs)"
proof (induction chunks arbitrary: c fs)
  case Nil
  then show ?case by (simp add: Feed_parse_pending)
next
  case (Cons chunk rest)
  obtain e1 b1 fs1 where p1: "Feed_parse (m_buffer c @ chunk) [] = (e1, b1, fs1)"
    by (cases "Feed_parse (m_buffer c @ chunk) []") auto
  from Cons.prems(2) have whole: "Feed_parse ((m_buffer c @ chunk) @ concat rest) [] = (Break, b, fs)"
    by simp
  from whole p1 have e1: "e1 = Break"
    unfolding Feed_parse_append [of "m_buffer c @ chunk"] by (cases e1) auto
  with whole p1 have rest1: "Feed_parse (b1 @ concat rest) fs1 = (Break, b, fs)"
    unfolding Feed_parse_append [of "m_buffer c @ chunk"] by simp
  obtain fs2 where rest2: "Feed_parse (b1 @ concat rest) [] = (Break, b, fs2)" and fs: "fs = fs1 @ fs2"
    using rest1 by (subst (asm) Feed_parse_acc) (auto split: prod.splits)
  from p1 e1 have pb1: "pending b1" by (auto dest: Feed_parse_Break_pending)
  have feed1: "Feed c chunk [] = (c\<lparr> m_buffer := b1 \<rparr>, fs1)"
    using Cons.prems(1) p1 by (simp add: Feed_stream)
  have "Feed_chunks (c\<lparr> m_buffer := b1 \<rparr>) rest = (c\<lparr> m_buffer := b1 \<rparr>\<lparr> m_buffer := b \<rparr>, fs2)"
    using pb1 rest2 by (intro Cons.IH) simp_all
  with feed1 fs show ?case by simp
qed


section \<open>The session keeps its running flag while it dispatches\<close>

lemma SendFrame_running [simp]: "m_running (SendFrame s b) = m_running s"
  by (simp add: SendFrame_def split: option.splits)

lemma Send_running [simp]:
  "m_running (SendChannelOpenAck s cid) = m_running s"
  "m_running (SendChannelRequestAck s cid d n) = m_running s"
  "m_running (SendData s cid d n) = m_running s"
  "m_running (SendChannelClose s cid fl) = m_running s"
  "m_running (SendChannelCloseAck s cid) = m_running s"
  "m_running (SendWindowUpdate s cid w) = m_running s"
  "m_running (SendCloseToMux s ch fl) = m_running s"
  by (simp_all add: SendChannelOpenAck_def SendChannelRequestAck_def SendData_def
      SendChannelClose_def SendChannelCloseAck_def SendWindowUpdate_def SendCloseToMux_def)

lemma target_running [simp]:
  "m_running (target_Close s ch) = m_running s"
  "m_running (fst (target_reset s ch)) = m_running s"
  by (simp_all add: target_Close_def target_reset_def split: option.splits)

lemma ForceClose_running [simp]: "m_running (fst (ForceClose s ch)) = m_running s"
  by (simp add: ForceClose_def split_beta)

lemma Channel_dtor_running [simp]: "m_running (Channel_dtor s ch) = m_running s"
  by (simp add: Channel_dtor_def split_beta)

lemma OnOpen_running [simp]: "m_running (fst (OnOpen s ch)) = m_running s"
  by (simp add: OnOpen_def Let_def)

lemma OnTargetConnected_running [simp]: "m_running (fst (OnTargetConnected s ch ec)) = m_running s"
  by (simp add: OnTargetConnected_def Let_def)

lemma ProcessSocks5_connect_running [simp]:
  "m_running (fst (ProcessSocks5_connect env s ch)) = m_running s"
  by (simp add: ProcessSocks5_connect_def Let_def split_beta)

lemma ProcessSocks5_running [simp]: "m_running (fst (ProcessSocks5 env s ch)) = m_running s"
  by (simp add: ProcessSocks5_def Let_def split_beta)

lemma OnRequest_running [simp]: "m_running (fst (OnRequest env s ch d)) = m_running s"
  by (simp add: OnRequest_def)

lemma OnData_running [simp]: "m_running (fst (OnData s ch d)) = m_running s"
  by (simp add: OnData_def Let_def)

lemma OnClose_running [simp]: "m_running (fst (OnClose s ch fl)) = m_running s"
  by (simp add: OnClose_def Let_def split_beta)

lemma registry_running [simp]:
  "m_running (store_channel s cid ch) = m_running s"
  "m_running (RemoveChannel s cid) = m_running s"
  by (simp_all add: store_channel_def RemoveChannel_def Let_def split: option.splits)

lemma DispatchFrame_running [simp]: "m_running (DispatchFrame env s frame) = m_running s"
  by (simp add: DispatchFrame_def HandleChannelOpen_def HandleChannelRequest_def HandleData_def
      HandleChannelClose_def HandleChannelCloseAck_def HandlePing_def HandleWindowUpdate_def
      Let_def split_beta split: option.splits)

lemma fold_DispatchFrame_running [simp]:
  "m_running (fold (\<lambda>frame s1. DispatchFrame env s1 frame) frames s) = m_running s"
  by (induction frames arbitrary: s) simp_all

lemma OnDataReceived_running: "m_running (OnDataReceived env s data) = m_running s"
  by (simp add: OnDataReceived_def split_beta)


section \<open>The registry and the channel's effects: lemmas\<close>

lemma started_simps:
  "m_running started" "m_transport started = Some \<lparr> sent = [] \<rparr>" "m_channels started = []"
  "tcp_calls started = []" "m_codec started = FrameCodec_init" "m_channel_window_size started = 262144"
  by (simp_all add: started_def MuxSession_Start_def MuxSession_init_def StartKeepaliveTimer_def)

lemma SendFrame_other [simp]:
  "m_channels (SendFrame s b) = m_channels s"
  "tcp_calls (SendFrame s b) = tcp_calls s"
  "m_channel_window_size (SendFrame s b) = m_channel_window_size s"
  by (simp_all add: SendFrame_def split: option.splits)

lemma Channel_dtor_effect:
  "m_channels (Channel_dtor s ch) = m_channels s"
  "m_channel_window_size (Channel_dtor s ch) = m_channel_window_size s"
  "m_transport (Channel_dtor s ch) = m_transport s"
  "tcp_calls (Channel_dtor s ch) =
     tcp_calls s @
       (if m_target ch = None then []
        else if m_state ch = Closed then [Tcp_Close (m_id ch)]
        else [Tcp_Close (m_id ch), Tcp_Close (m_id ch)])"
  by (auto simp: Channel_dtor_def ForceClose_def target_reset_def target_Close_def Let_def
      split: option.splits)

lemma OnOpen_effect:
  "snd (OnOpen s ch) = ch\<lparr> m_state := Requesting \<rparr>"
  "m_channels (fst (OnOpen s ch)) = m_channels s"
  "tcp_calls (fst (OnOpen s ch)) = tcp_calls s"
  by (simp_all add: OnOpen_def Let_def SendChannelOpenAck_def)

lemma one_entry:
  "distinct (map fst al) \<Longrightarrow> map_of al k = Some v \<Longrightarrow>
   length (filter (\<lambda>e. fst e = k) al) = 1"
proof (induction al)
  case Nil
  then show ?case by simp
next
  case (Cons e al)
  show ?case
  proof (cases "fst e = k")
    case True
    with Cons.prems(1) have "k \<notin> fst ` set al"
      by simp
    then have "filter (\<lambda>e. fst e = k) al = []"
      by (auto simp: filter_empty_conv image_iff)
    with True show ?thesis by simp
  next
    case False
    with Cons show ?thesis by (cases e) (auto split: if_splits)
  qed
qed

section \<open>The SOCKS5 parser: lemmas\<close>

lemma unat_of_nat_u8: "n \<le> 255 \<Longrightarrow> unat (of_nat n :: u8) = n"
  by (simp add: unat_of_nat)

lemma scan_fold:
  "fold (\<lambda>i supports_no_auth. if data ! (2 + i) = AUTH_NONE then True else supports_no_auth)
     [0..<n] b \<longleftrightarrow> b \<or> (\<exists>i<n. data ! (2 + i) = AUTH_NONE)"
proof (induction n)
  case 0
  show ?case by simp
next
  case (Suc n)
  show ?case
  proof (cases "data ! (2 + n) = AUTH_NONE")
    case True
    then show ?thesis by auto
  next
    case False
    have "(\<exists>i<Suc n. data ! (2 + i) = AUTH_NONE) \<longleftrightarrow> (\<exists>i<n. data ! (2 + i) = AUTH_NONE)"
      using False less_Suc_eq by auto
    with False Suc show ?thesis by simp
  qed
qed

lemma nth_behind_two: "(a # b # ms) ! (2 + i) = ms ! i"
  by (simp add: numeral_2_eq_2)

lemma scan_methods_message:
  "scan_methods (a # b # ms) (length ms) \<longleftrightarrow> AUTH_NONE \<in> set ms"
  by (simp only: scan_methods_def scan_fold) (simp add: nth_behind_two in_set_conv_nth)

lemma ParseMethodRequest_short:
  "length data < 2 \<Longrightarrow> ParseMethodRequest data = (0, False)"
  by (simp add: ParseMethodRequest_def)

lemma ParseMethodRequest_wait:
  "2 \<le> length data \<Longrightarrow> data ! 0 = VERSION \<Longrightarrow> length data < 2 + unat (data ! 1) \<Longrightarrow>
   ParseMethodRequest data = (0, False)"
  by (simp add: ParseMethodRequest_def Let_def)

lemma ParseMethodRequest_done:
  "data ! 0 = VERSION \<Longrightarrow> length data = 2 + unat (data ! 1) \<Longrightarrow>
   ParseMethodRequest data = (int (length data), scan_methods data (unat (data ! 1)))"
  by (simp add: ParseMethodRequest_def Let_def)

lemma method_message_simps:
  "length (method_message ms) = 2 + length ms"
  "method_message ms ! 0 = VERSION"
  "method_message ms ! Suc 0 = of_nat (length ms)"
  by (simp_all add: method_message_def)

lemma method_prefix:
  assumes "length ms \<le> 255" and "n < length (method_message ms)"
  shows "fst (ParseMethodRequest (take n (method_message ms))) = 0"
proof (cases "n < 2")
  case True
  then have "length (take n (method_message ms)) < 2" by simp
  then show ?thesis by (simp only: ParseMethodRequest_short fst_conv)
next
  case False
  let ?p = "take n (method_message ms)"
  from assms(2) have len: "length ?p = n" by simp
  from False have "?p ! 0 = VERSION" "?p ! 1 = of_nat (length ms)"
    by (simp_all add: method_message_simps)
  moreover from assms have "n < 2 + unat (of_nat (length ms) :: u8)"
    by (simp add: unat_of_nat_u8 method_message_simps)
  ultimately have "ParseMethodRequest ?p = (0, False)"
    using False len by (intro ParseMethodRequest_wait) simp_all
  then show ?thesis by simp
qed

lemma method_full:
  assumes "length ms \<le> 255"
  shows "ParseMethodRequest (method_message ms) =
           (int (length (method_message ms)), AUTH_NONE \<in> set ms)"
proof -
  have "ParseMethodRequest (method_message ms) =
      (int (length (method_message ms)),
       scan_methods (method_message ms) (unat (method_message ms ! 1)))"
    using assms by (intro ParseMethodRequest_done) (simp_all add: method_message_simps unat_of_nat_u8)
  also have "scan_methods (method_message ms) (unat (method_message ms ! 1)) \<longleftrightarrow> AUTH_NONE \<in> set ms"
    using assms by (simp add: method_message_simps unat_of_nat_u8)
      (simp add: method_message_def scan_methods_message)
  finally show ?thesis .
qed

lemma ParseConnectRequest_short:
  "length data < 4 \<Longrightarrow> ParseConnectRequest data out = (0, out)"
  by (simp add: ParseConnectRequest_def)

lemma ParseConnectRequest_addr_wait:
  "length data < 4 + addr_len + 2 \<Longrightarrow> ParseConnectRequest_addr data out cmd at addr_len = (0, out)"
  by (simp add: ParseConnectRequest_addr_def)

lemma ParseConnectRequest_wait_ipv4:
  "4 \<le> length data \<Longrightarrow> data ! 0 = VERSION \<Longrightarrow> data ! 3 = ATYP_IPV4 \<Longrightarrow> length data < 10 \<Longrightarrow>
   fst (ParseConnectRequest data out) = 0"
  by (simp add: ParseConnectRequest_def Let_def ParseConnectRequest_addr_wait)

lemma ParseConnectRequest_wait_ipv6:
  "4 \<le> length data \<Longrightarrow> data ! 0 = VERSION \<Longrightarrow> data ! 3 = ATYP_IPV6 \<Longrightarrow> length data < 22 \<Longrightarrow>
   fst (ParseConnectRequest data out) = 0"
  by (simp add: ParseConnectRequest_def Let_def ParseConnectRequest_addr_wait)

lemma ParseConnectRequest_wait_domain:
  "4 \<le> length data \<Longrightarrow> data ! 0 = VERSION \<Longrightarrow> data ! 3 = ATYP_DOMAIN \<Longrightarrow>
   length data < 5 \<or> length data < 7 + unat (data ! 4) \<Longrightarrow>
   fst (ParseConnectRequest data out) = 0"
  by (auto simp: ParseConnectRequest_def Let_def ParseConnectRequest_addr_wait)

lemma connect_message_simps:
  "length (connect_message cmd rsv at addr ph pl) = 6 + length addr"
  "connect_message cmd rsv at addr ph pl ! 0 = VERSION"
  "connect_message cmd rsv at addr ph pl ! 1 = cmd"
  "connect_message cmd rsv at addr ph pl ! 3 = at"
  "connect_message cmd rsv at (a # addr) ph pl ! 4 = a"
  "drop 4 (connect_message cmd rsv at addr ph pl) = addr @ [ph, pl]"
  by (simp_all add: connect_message_def)

lemma connect_prefix_ipv4:
  assumes "length addr = 4" and "n < length (connect_message cmd rsv ATYP_IPV4 addr ph pl)"
  shows "fst (ParseConnectRequest (take n (connect_message cmd rsv ATYP_IPV4 addr ph pl)) out) = 0"
proof (cases "n < 4")
  case True
  then have "length (take n (connect_message cmd rsv ATYP_IPV4 addr ph pl)) < 4" by simp
  then show ?thesis by (simp only: ParseConnectRequest_short fst_conv)
next
  case False
  with assms show ?thesis
    by (intro ParseConnectRequest_wait_ipv4) (simp_all add: connect_message_simps)
qed

lemma connect_prefix_ipv6:
  assumes "length addr = 16" and "n < length (connect_message cmd rsv ATYP_IPV6 addr ph pl)"
  shows "fst (ParseConnectRequest (take n (connect_message cmd rsv ATYP_IPV6 addr ph pl)) out) = 0"
proof (cases "n < 4")
  case True
  then have "length (take n (connect_message cmd rsv ATYP_IPV6 addr ph pl)) < 4" by simp
  then show ?thesis by (simp only: ParseConnectRequest_short fst_conv)
next
  case False
  with assms show ?thesis
    by (intro ParseConnectRequest_wait_ipv6) (simp_all add: connect_message_simps)
qed

lemma connect_prefix_domain:
  assumes "length d \<le> 255"
    and "n < length (connect_message cmd rsv ATYP_DOMAIN (of_nat (length d) # d) ph pl)"
  shows "fst (ParseConnectRequest
           (take n (connect_message cmd rsv ATYP_DOMAIN (of_nat (length d) # d) ph pl)) out) = 0"
proof (cases "n < 4")
  case True
  then have "length (take n (connect_message cmd rsv ATYP_DOMAIN (of_nat (length d) # d) ph pl)) < 4"
    by simp
  then show ?thesis by (simp only: ParseConnectRequest_short fst_conv)
next
  case False
  let ?p = "take n (connect_message cmd rsv ATYP_DOMAIN (of_nat (length d) # d) ph pl)"
  from assms(2) have len: "length ?p = n" by simp
  have "length ?p < 5 \<or> length ?p < 7 + unat (?p ! 4)"
  proof (cases "n < 5")
    case True
    with len show ?thesis by simp
  next
    case n5: False
    then have "?p ! 4 = of_nat (length d)" by (simp add: connect_message_simps)
    with assms len show ?thesis by (simp add: unat_of_nat_u8 connect_message_simps)
  qed
  with False len show ?thesis
    by (intro ParseConnectRequest_wait_domain) (simp_all add: connect_message_simps)
qed

lemma connect_message_port:
  "connect_message cmd rsv at addr ph pl ! (4 + length addr) = ph"
  "connect_message cmd rsv at addr ph pl ! Suc (4 + length addr) = pl"
  by (simp_all add: connect_message_def nth_append nth_Cons')

lemma connect_message_domain:
  "drop 5 (connect_message cmd rsv at (a # addr) ph pl) = addr @ [ph, pl]"
  by (simp add: connect_message_def)

lemma connect_full_ipv4:
  assumes "length a = 4"
  shows "ParseConnectRequest (connect_message cmd rsv ATYP_IPV4 a ph pl) out =
           (10, out\<lparr> atyp := ATYP_IPV4, ipv4 := a, host := ipv4_string a, port := be16 ph pl \<rparr>)"
  using assms connect_message_port [of cmd rsv ATYP_IPV4 a ph pl]
  by (simp add: ParseConnectRequest_def ParseConnectRequest_addr_def connect_message_simps
      Let_def be16_def)

lemma connect_full_ipv6:
  assumes "length a = 16"
  shows "ParseConnectRequest (connect_message cmd rsv ATYP_IPV6 a ph pl) out =
           (22, out\<lparr> atyp := ATYP_IPV6, ipv6 := a, host := ipv6_string a, port := be16 ph pl \<rparr>)"
  using assms connect_message_port [of cmd rsv ATYP_IPV6 a ph pl]
  by (simp add: ParseConnectRequest_def ParseConnectRequest_addr_def connect_message_simps
      Let_def be16_def)

lemma connect_full_domain:
  assumes "length d \<le> 255"
  shows "ParseConnectRequest (connect_message cmd rsv ATYP_DOMAIN (of_nat (length d) # d) ph pl) out =
           (int (7 + length d),
            out\<lparr> atyp := ATYP_DOMAIN, host := map (\<lambda>b. char_of (unat b)) d, port := be16 ph pl \<rparr>)"
  using assms connect_message_port [of cmd rsv ATYP_DOMAIN "of_nat (length d) # d" ph pl]
  by (simp add: ParseConnectRequest_def ParseConnectRequest_addr_def connect_message_simps
      Let_def be16_def unat_of_nat_u8 connect_message_domain)


section \<open>The session stays consistent\<close>

lemma SendFrame_codec [simp]: "m_codec (SendFrame s b) = m_codec s"
  by (simp add: SendFrame_def split: option.splits)

lemma Send_frame_fields [simp]:
  "m_codec (SendChannelOpenAck s cid) = m_codec s"
  "m_codec (SendChannelRequestAck s cid d n) = m_codec s"
  "m_codec (SendChannelClose s cid fl) = m_codec s"
  "m_codec (SendChannelCloseAck s cid) = m_codec s"
  "m_codec (SendWindowUpdate s cid w) = m_codec s"
  "m_codec (SendCloseToMux s ch fl) = m_codec s"
  "m_channels (SendChannelOpenAck s cid) = m_channels s"
  "m_channels (SendChannelRequestAck s cid d n) = m_channels s"
  "m_channels (SendChannelClose s cid fl) = m_channels s"
  "m_channels (SendChannelCloseAck s cid) = m_channels s"
  "m_channels (SendWindowUpdate s cid w) = m_channels s"
  "m_channels (SendCloseToMux s ch fl) = m_channels s"
  by (simp_all add: SendChannelOpenAck_def SendChannelRequestAck_def
      SendChannelClose_def SendChannelCloseAck_def SendWindowUpdate_def SendCloseToMux_def)

lemma target_fields [simp]:
  "m_codec (target_Close s ch) = m_codec s"
  "m_channels (target_Close s ch) = m_channels s"
  "m_codec (fst (target_reset s ch)) = m_codec s"
  "m_channels (fst (target_reset s ch)) = m_channels s"
  by (simp_all add: target_Close_def target_reset_def split: option.splits)

lemma ForceClose_fields [simp]:
  "m_codec (fst (ForceClose s ch)) = m_codec s"
  "m_channels (fst (ForceClose s ch)) = m_channels s"
  by (simp_all add: ForceClose_def split_beta)

lemma Channel_dtor_codec [simp]: "m_codec (Channel_dtor s ch) = m_codec s"
  by (simp add: Channel_dtor_def split_beta)

lemma OnOpen_codec [simp]: "m_codec (fst (OnOpen s ch)) = m_codec s"
  by (simp add: OnOpen_def Let_def)

lemma OnTargetConnected_fields [simp]:
  "m_codec (fst (OnTargetConnected s ch ec)) = m_codec s"
  "m_channels (fst (OnTargetConnected s ch ec)) = m_channels s"
  by (simp_all add: OnTargetConnected_def Let_def)

lemma ProcessSocks5_connect_fields [simp]:
  "m_codec (fst (ProcessSocks5_connect env s ch)) = m_codec s"
  "m_channels (fst (ProcessSocks5_connect env s ch)) = m_channels s"
  by (simp_all add: ProcessSocks5_connect_def Let_def split_beta)

lemma ProcessSocks5_fields [simp]:
  "m_codec (fst (ProcessSocks5 env s ch)) = m_codec s"
  "m_channels (fst (ProcessSocks5 env s ch)) = m_channels s"
  by (simp_all add: ProcessSocks5_def Let_def split_beta)

lemma OnRequest_fields [simp]:
  "m_codec (fst (OnRequest env s ch d)) = m_codec s"
  "m_channels (fst (OnRequest env s ch d)) = m_channels s"
  by (simp_all add: OnRequest_def)

lemma OnData_fields [simp]:
  "m_codec (fst (OnData s ch d)) = m_codec s"
  "m_channels (fst (OnData s ch d)) = m_channels s"
  by (simp_all add: OnData_def Let_def)

lemma OnClose_fields [simp]:
  "m_codec (fst (OnClose s ch fl)) = m_codec s"
  "m_channels (fst (OnClose s ch fl)) = m_channels s"
  by (simp_all add: OnClose_def Let_def split_beta)

lemma registry_codec [simp]:
  "m_codec (store_channel s cid ch) = m_codec s"
  "m_codec (RemoveChannel s cid) = m_codec s"
  by (simp_all add: store_channel_def RemoveChannel_def Let_def split: option.splits)

lemma registry_distinct:
  "distinct (map fst (m_channels s)) \<Longrightarrow> distinct (map fst (m_channels (store_channel s cid ch)))"
  "distinct (map fst (m_channels s)) \<Longrightarrow> distinct (map fst (m_channels (RemoveChannel s cid)))"
  by (simp_all add: store_channel_def RemoveChannel_def Let_def distinct_update distinct_delete
      Channel_dtor_effect split: option.splits)

lemma DispatchFrame_codec [simp]: "m_codec (DispatchFrame env s frame) = m_codec s"
  by (simp add: DispatchFrame_def HandleChannelOpen_def HandleChannelRequest_def HandleData_def
      HandleChannelClose_def HandleChannelCloseAck_def HandlePing_def HandleWindowUpdate_def
      Let_def split_beta split: option.splits)

lemma DispatchFrame_distinct:
  assumes "distinct (map fst (m_channels s))"
  shows "distinct (map fst (m_channels (DispatchFrame env s frame)))"
proof -
  have upd: "distinct (map fst (m_channels (store_channel s1 cid ch)))"
    if "m_channels s1 = m_channels s" for s1 cid ch
    using assms that by (simp add: store_channel_def distinct_update)
  have rem: "distinct (map fst (m_channels (RemoveChannel (store_channel s1 cid ch) cid')))"
    if "m_channels s1 = m_channels s" for s1 cid ch cid'
    using upd [OF that] by (rule registry_distinct(2))
  have "distinct (map fst (m_channels (HandleChannelOpen s frame)))"
    using assms
    by (simp add: HandleChannelOpen_def Let_def split_beta store_channel_def OnOpen_effect
        Channel_dtor_effect distinct_update split: option.splits)
  moreover have "distinct (map fst (m_channels (HandleChannelRequest env s frame)))"
    using assms by (simp add: HandleChannelRequest_def split_beta upd split: option.splits)
  moreover have "distinct (map fst (m_channels (HandleData s frame)))"
    using assms by (simp add: HandleData_def split_beta upd split: option.splits)
  moreover have "distinct (map fst (m_channels (HandleChannelClose s frame)))"
    using assms by (simp add: HandleChannelClose_def Let_def split_beta upd rem split: option.splits)
  moreover have "distinct (map fst (m_channels (HandleChannelCloseAck s frame)))"
    using assms by (simp add: HandleChannelCloseAck_def Let_def split_beta rem split: option.splits)
  moreover have "distinct (map fst (m_channels (HandlePing s frame)))"
    using assms by (simp add: HandlePing_def)
  moreover have "distinct (map fst (m_channels (HandleWindowUpdate s frame)))"
    using assms by (simp add: HandleWindowUpdate_def Let_def upd split: option.splits)
  ultimately show ?thesis
    using assms by (simp add: DispatchFrame_def Let_def)
qed

lemma fold_DispatchFrame_consistent:
  "consistent s \<Longrightarrow> consistent (fold (\<lambda>frame s1. DispatchFrame env s1 frame) frames s)"
  by (induction frames arbitrary: s) (simp_all add: consistent_def DispatchFrame_distinct)

lemma Feed_parse_Return_empty:
  "Feed_parse buf acc = (Return, b, fs) \<Longrightarrow> b = []"
proof (induction buf acc rule: Feed_parse.induct)
  case (1 buf out_frames)
  show ?case
  proof (cases "pending buf")
    case True
    with "1.prems" show ?thesis by (simp add: Feed_parse_pending)
  next
    case False
    then have hd: "FRAME_HEADER_SIZE \<le> length buf" by (auto simp: pending_def)
    show ?thesis
    proof (cases "FRAME_MAX_PAYLOAD < unat (payload_length (read_header buf))")
      case True
      with hd "1.prems" show ?thesis by (simp add: Feed_parse.simps [of buf])
    next
      case small: False
      with False hd have full: "\<not> length buf < FRAME_HEADER_SIZE + unat (payload_length (read_header buf))"
        by (auto simp: pending_def)
      from hd small full "1.prems" "1.IH" [OF hd refl small refl full] show ?thesis
        by (simp add: Feed_parse.simps [of buf] Let_def)
    qed
  qed
qed

lemma Feed_pending:
  assumes "pending (m_buffer c)"
  shows "pending (m_buffer (fst (Feed c data acc)))"
proof -
  obtain e b fs where p: "Feed_parse (m_buffer c @ data) acc = (e, b, fs)"
    by (cases "Feed_parse (m_buffer c @ data) acc") auto
  then have "pending b"
    by (cases e) (auto dest: Feed_parse_Break_pending Feed_parse_Return_empty)
  with assms p show ?thesis by (simp add: Feed_stream)
qed

lemma consistent_init: "consistent (MuxSession_init transport w k)"
  by (simp add: consistent_def MuxSession_init_def FrameCodec_init_def)

lemma consistent_Start: "consistent s \<Longrightarrow> consistent (MuxSession_Start s)"
  by (simp add: consistent_def MuxSession_Start_def StartKeepaliveTimer_def)

lemma consistent_OnDataReceived:
  assumes "consistent s"
  shows "consistent (OnDataReceived env s data)"
proof -
  from assms have "consistent (s\<lparr> m_codec := fst (Feed (m_codec s) data []) \<rparr>)"
    by (simp add: consistent_def Feed_pending)
  then show ?thesis
    by (simp add: OnDataReceived_def split_beta fold_DispatchFrame_consistent)
qed

lemma ForceClose_all_codec: "m_codec (fst (ForceClose_all s chans)) = m_codec s"
  by (induction chans arbitrary: s) (auto simp: split_beta)

lemma destroy_all_codec: "m_codec (destroy_all s chans) = m_codec s"
  by (induction chans arbitrary: s) auto

lemma consistent_Shutdown: "consistent s \<Longrightarrow> consistent (MuxSession_Shutdown s)"
  by (simp add: consistent_def MuxSession_Shutdown_def CloseAllChannels_def split_beta
      StopKeepaliveTimer_def ForceClose_all_codec destroy_all_codec)

section \<open>The claims\<close>

text \<open>
  C1, as the code has it. Let the codec of a session hold a buffer that \<^verbatim>\<open>Feed\<close> left
  behind (as it does in every consistent session), and let the buffered bytes followed
  by the input be a sequence of well-formed frames, then a header whose
  \<^verbatim>\<open>payload_length\<close> exceeds 65536, then anything. Then \<^verbatim>\<open>Feed\<close> discards its
  accumulation state (\<^verbatim>\<open>m_used = 0\<close>) and the rest of the input, and all that its caller
  gets is the frame vector with exactly the frames in front of that header: \<^verbatim>\<open>Feed\<close> is
  \<^verbatim>\<open>void\<close> and indicates no error. \<^verbatim>\<open>OnDataReceived\<close> goes on to dispatch those frames
  from the session with the emptied codec.
\<close>

theorem C1_oversized_discards:
  assumes "pending (m_buffer (m_codec s))"
    and "\<forall>f\<in>set fs. well_formed f"
    and "FRAME_MAX_PAYLOAD < unat (payload_length hdr)"
    and "m_buffer (m_codec s) @ data = concat (map wire fs) @ header_bytes hdr @ rest"
  shows "Feed (m_codec s) data [] = ((m_codec s)\<lparr> m_buffer := [] \<rparr>, fs) \<and>
         m_used (fst (Feed (m_codec s) data [])) = 0 \<and>
         OnDataReceived env s data =
           fold (\<lambda>frame s1. DispatchFrame env s1 frame) fs
             (s\<lparr> m_codec := (m_codec s)\<lparr> m_buffer := [] \<rparr> \<rparr>)"
proof -
  have "Feed_parse (m_buffer (m_codec s) @ data) [] = (Return, [], fs)"
    unfolding assms(4) using assms(2,3)
    by (simp only: Feed_parse_wires Feed_parse_oversized) simp
  with assms(1) have feed: "Feed (m_codec s) data [] = ((m_codec s)\<lparr> m_buffer := [] \<rparr>, fs)"
    by (simp add: Feed_stream)
  then show ?thesis
    by (simp add: OnDataReceived_def m_used_def)
qed

text \<open>
  A running session that receives the ping frame, an oversized header and two more
  bytes: the codec hands back the ping and is empty, and the ping is answered with a
  pong.
\<close>

theorem C1_oversized_discards_witness:
  "pending (m_buffer (m_codec started)) \<and>
   well_formed \<lparr> header = \<lparr> type = 8, flags = 0, channel_id = 0, payload_length = 0 \<rparr>,
                 payload = [] \<rparr> \<and>
   FRAME_MAX_PAYLOAD < unat (payload_length \<lparr> type = 5, flags = 0, channel_id = 7, payload_length = 65537 \<rparr>) \<and>
   m_buffer (m_codec started) @
     [8, 0, 0, 0, 0, 0, 0, 0, 5, 0, 7, 0, 1, 0, 1, 0, 9, 9] =
     concat (map wire [\<lparr> header = \<lparr> type = 8, flags = 0, channel_id = 0, payload_length = 0 \<rparr>,
                          payload = [] \<rparr>]) @
     header_bytes \<lparr> type = 5, flags = 0, channel_id = 7, payload_length = 65537 \<rparr> @ [9, 9] \<and>
   Feed FrameCodec_init [8, 0, 0, 0, 0, 0, 0, 0, 5, 0, 7, 0, 1, 0, 1, 0, 9, 9] [] =
     (FrameCodec_init,
      [\<lparr> header = \<lparr> type = 8, flags = 0, channel_id = 0, payload_length = 0 \<rparr>, payload = [] \<rparr>]) \<and>
   m_transport (OnDataReceived always_connects started
     [8, 0, 0, 0, 0, 0, 0, 0, 5, 0, 7, 0, 1, 0, 1, 0, 9, 9]) =
     Some \<lparr> sent = [[9, 0, 0, 0, 0, 0, 0, 0]] \<rparr>"
proof -
  let ?ping = "\<lparr> header = \<lparr> type = 8, flags = 0, channel_id = 0, payload_length = 0 \<rparr>,
                 payload = [] \<rparr>"
  let ?hdr = "\<lparr> type = 5, flags = 0, channel_id = 7, payload_length = 65537 \<rparr>"
  have codec: "m_codec started = FrameCodec_init" and run: "m_running started"
    by (simp_all add: started_simps)
  have h1: "pending (m_buffer (m_codec started))"
    by (simp add: codec FrameCodec_init_def)
  have h2: "\<forall>f\<in>set [?ping]. well_formed f"
    by (simp add: well_formed_def)
  have h3: "FRAME_MAX_PAYLOAD < unat (payload_length ?hdr)"
    by simp
  have h4: "m_buffer (m_codec started) @ [8, 0, 0, 0, 0, 0, 0, 0, 5, 0, 7, 0, 1, 0, 1, 0, 9, 9] =
      concat (map wire [?ping]) @ header_bytes ?hdr @ [9, 9]"
    by (simp add: codec FrameCodec_init_def wire_def header_bytes_def le16_def le32_def)
  note main = C1_oversized_discards [OF h1 h2 h3 h4, of always_connects]
  have sent: "m_transport (fold (\<lambda>frame s1. DispatchFrame always_connects s1 frame) [?ping]
      (started\<lparr> m_codec := (m_codec started)\<lparr> m_buffer := [] \<rparr> \<rparr>)) =
      Some \<lparr> sent = [[9, 0, 0, 0, 0, 0, 0, 0]] \<rparr>"
    by (simp add: DispatchFrame_def HandlePing_def SendFrame_def BuildPong_def Encode_def
        header_bytes_def le16_def le32_def started_simps)
  from h1 h2 h3 h4 main sent run show ?thesis
    by (simp add: codec FrameCodec_init_def)
qed

text \<open>
  C1 as stated fails: fed with a header of \<^verbatim>\<open>payload_length = 65537\<close>, a fresh codec
  hands back what it hands back on the empty input, so nothing indicates an error to
  the caller; and a started session that receives these bytes is exactly what it was,
  its running flag set.
\<close>

theorem C1_counterexample:
  "Feed FrameCodec_init [5, 0, 7, 0, 1, 0, 1, 0] [] = Feed FrameCodec_init [] [] \<and>
   OnDataReceived always_connects started [5, 0, 7, 0, 1, 0, 1, 0] = started \<and>
   m_running (OnDataReceived always_connects started [5, 0, 7, 0, 1, 0, 1, 0])"
  by (simp add: Feed_def FrameCodec_init_def Feed_loop.simps Feed_parse.simps read_header_def
      rd32_def rd16_def OnDataReceived_def started_simps)

text \<open>
  C2 fails on the code. \<^verbatim>\<open>SendToMux\<close> clamps a chunk to the send window only where the
  window is above zero, and keeps no bytes back. A relaying channel whose send window
  is zero sends the byte it gets from its connection at once, as a DATA frame, and a
  channel with a window of three bytes that gets five sends three and then the other
  two, though its window is zero by then.
\<close>

theorem C2_zero_window_sends:
  "OnTargetData started ((Channel_init 7 0)\<lparr> m_state := Relaying \<rparr>) [0x61] =
     (started\<lparr> m_transport := Some \<lparr> sent = [[5, 0, 7, 0, 1, 0, 0, 0, 0x61]] \<rparr> \<rparr>,
      (Channel_init 7 0)\<lparr> m_state := Relaying \<rparr>) \<and>
   OnTargetData started ((Channel_init 7 3)\<lparr> m_state := Relaying \<rparr>)
       [0x61, 0x62, 0x63, 0x64, 0x65] =
     (started\<lparr> m_transport :=
        Some \<lparr> sent = [[5, 0, 7, 0, 3, 0, 0, 0, 0x61, 0x62, 0x63],
                        [5, 0, 7, 0, 2, 0, 0, 0, 0x64, 0x65]] \<rparr> \<rparr>,
      (Channel_init 7 3)\<lparr> m_state := Relaying, m_send_window := 0 \<rparr>) \<and>
   m_send_window ((Channel_init 7 0)\<lparr> m_state := Relaying \<rparr>) = 0"
  by (simp add: OnTargetData_def SendToMux_def SendToMux_loop.simps Let_def SendData_def
      SendFrame_def BuildData_def Encode_def header_bytes_def le16_def le32_def started_simps
      Channel_init_def)

text \<open>
  C3. For every frame type, flags, channel id and payload of at most 65536 bytes,
  feeding the encoding to a fresh codec yields exactly the one frame with that header
  and payload. And for every sequence of such tuples whose encodings are concatenated
  and cut into chunks in any way (empty chunks included), the successive \<^verbatim>\<open>Feed\<close> calls
  emit exactly those frames in order, and leave the codec empty.
\<close>

theorem C3_frame_roundtrip:
  "(length p \<le> FRAME_MAX_PAYLOAD \<longrightarrow>
      Feed FrameCodec_init (Encode ty fl cid (Some p) (of_nat (length p))) [] =
        (FrameCodec_init,
         [\<lparr> header = \<lparr> type = FrameType_u8 ty, flags = fl, channel_id = cid,
                        payload_length = of_nat (length p) \<rparr>,
            payload = p \<rparr>])) \<and>
   ((\<forall>(ty, fl, cid, p) \<in> set xs. length p \<le> FRAME_MAX_PAYLOAD) \<and>
    concat chunks = concat (map encoded xs) \<longrightarrow>
      Feed_chunks FrameCodec_init chunks = (FrameCodec_init, map decoded xs))"
proof (intro conjI impI)
  assume le: "length p \<le> FRAME_MAX_PAYLOAD"
  have "Feed_parse (wire (decoded (ty, fl, cid, p)) @ []) [] = (Break, [], [decoded (ty, fl, cid, p)])"
    using well_formed_decoded [OF le, of ty fl cid]
    by (simp only: Feed_parse_wire) (simp add: Feed_parse_pending)
  then have "Feed FrameCodec_init (encoded (ty, fl, cid, p)) [] =
      (FrameCodec_init, [decoded (ty, fl, cid, p)])"
    by (simp add: Feed_stream FrameCodec_init_def Encode_wire [OF le])
  then show "Feed FrameCodec_init (Encode ty fl cid (Some p) (of_nat (length p))) [] =
        (FrameCodec_init,
         [\<lparr> header = \<lparr> type = FrameType_u8 ty, flags = fl, channel_id = cid,
                        payload_length = of_nat (length p) \<rparr>,
            payload = p \<rparr>])"
    by (simp add: encoded_def decoded_def)
next
  assume a: "(\<forall>(ty, fl, cid, p) \<in> set xs. length p \<le> FRAME_MAX_PAYLOAD) \<and>
    concat chunks = concat (map encoded xs)"
  then have enc: "map encoded xs = map wire (map decoded xs)"
    by (auto simp: Encode_wire)
  from a have wf: "\<forall>f\<in>set (map decoded xs). well_formed f"
    by (auto simp: well_formed_decoded)
  have "Feed_parse (concat (map wire (map decoded xs)) @ []) [] = (Break, [], map decoded xs)"
    using wf by (simp only: Feed_parse_wires) (simp add: Feed_parse_pending)
  with a enc have "Feed_parse (m_buffer FrameCodec_init @ concat chunks) [] = (Break, [], map decoded xs)"
    by (simp add: FrameCodec_init_def)
  then have "Feed_chunks FrameCodec_init chunks = (FrameCodec_init\<lparr> m_buffer := [] \<rparr>, map decoded xs)"
    by (intro Feed_chunks_stream) (simp_all add: FrameCodec_init_def)
  then show "Feed_chunks FrameCodec_init chunks = (FrameCodec_init, map decoded xs)"
    by (simp add: FrameCodec_init_def)
qed

text \<open>
  Two frames, a channel open and three bytes of data, cut into five chunks that split
  both headers, one chunk being empty.
\<close>

theorem C3_frame_roundtrip_witness:
  "length [0x61, 0x62, 0x63 :: u8] \<le> FRAME_MAX_PAYLOAD \<and>
   Feed FrameCodec_init (Encode Data 0 7 (Some [0x61, 0x62, 0x63]) 3) [] =
     (FrameCodec_init,
      [\<lparr> header = \<lparr> type = 5, flags = 0, channel_id = 7, payload_length = 3 \<rparr>,
         payload = [0x61, 0x62, 0x63] \<rparr>]) \<and>
   length ([] :: u8 list) \<le> FRAME_MAX_PAYLOAD \<and>
   concat [[1, 0, 7], [0, 0, 0, 0, 0, 5, 0, 7, 0, 3, 0], [], [0, 0, 0x61], [0x62, 0x63]] =
     concat (map encoded [(ChannelOpen, 0 :: u8, 7 :: u16, [] :: u8 list), (Data, 0, 7, [0x61, 0x62, 0x63])]) \<and>
   Feed_chunks FrameCodec_init
     [[1, 0, 7], [0, 0, 0, 0, 0, 5, 0, 7, 0, 3, 0], [], [0, 0, 0x61], [0x62, 0x63]] =
     (FrameCodec_init,
      [\<lparr> header = \<lparr> type = 1, flags = 0, channel_id = 7, payload_length = 0 \<rparr>, payload = [] \<rparr>,
       \<lparr> header = \<lparr> type = 5, flags = 0, channel_id = 7, payload_length = 3 \<rparr>,
         payload = [0x61, 0x62, 0x63] \<rparr>])"
proof -
  let ?xs = "[(ChannelOpen, 0 :: u8, 7 :: u16, [] :: u8 list), (Data, 0, 7, [0x61, 0x62, 0x63])]"
  let ?chunks = "[[1, 0, 7], [0, 0, 0, 0, 0, 5, 0, 7, 0, 3, 0], [], [0, 0, 0x61], [0x62, 0x63 :: u8]]"
  have h1: "length [0x61, 0x62, 0x63 :: u8] \<le> FRAME_MAX_PAYLOAD"
    by simp
  have h2: "\<forall>(ty, fl, cid, p) \<in> set ?xs. length p \<le> FRAME_MAX_PAYLOAD"
    by simp
  have h3: "concat ?chunks = concat (map encoded ?xs)"
    by (simp add: encoded_def Encode_def header_bytes_def le16_def le32_def)
  from h1 h2 h3 C3_frame_roundtrip [of "[0x61, 0x62, 0x63]" Data 0 7 ?xs ?chunks]
  show ?thesis
    by (simp add: decoded_def)
qed

text \<open>
  C4. A channel in state \<^verbatim>\<open>Relaying\<close> receives a DATA payload of \<open>n\<close> bytes.
  \<^verbatim>\<open>m_recv_consumed\<close> grows by \<open>n\<close> (in \<^verbatim>\<open>uint32_t\<close> arithmetic, which is the sum of the
  numbers wherever that is below \<open>2^32\<close>). If the grown value is at least
  \<^verbatim>\<open>m_recv_window_initial / 2\<close>, the channel emits a WINDOW\_UPDATE that carries that
  value: the transport gets what \<^verbatim>\<open>SendWindowUpdate\<close> with the channel's id and that
  value gives it, which for a running session with a transport is exactly one more
  frame, of type 10 and with the value in its four payload bytes; \<^verbatim>\<open>m_recv_window\<close>
  grows by the same value (again in \<^verbatim>\<open>uint32_t\<close> arithmetic) and \<^verbatim>\<open>m_recv_consumed\<close> is
  zero afterwards. Otherwise nothing goes to the transport, \<^verbatim>\<open>m_recv_window\<close> is
  unchanged and \<^verbatim>\<open>m_recv_consumed\<close> keeps the grown value.
\<close>

theorem C4_window_update:
  assumes "m_state ch = Relaying"
  shows "(m_recv_window_initial ch div 2 \<le> m_recv_consumed ch + of_nat (length data) \<longrightarrow>
            m_transport (fst (OnData s ch data)) =
              m_transport (SendWindowUpdate s (m_id ch)
                             (m_recv_consumed ch + of_nat (length data))) \<and>
            (\<forall>t. m_running s \<and> m_transport s = Some t \<longrightarrow>
               m_transport (fst (OnData s ch data)) =
                 Some (t\<lparr> sent := sent t @
                   [BuildWindowUpdate (m_id ch) (m_recv_consumed ch + of_nat (length data))] \<rparr>)) \<and>
            m_recv_window (snd (OnData s ch data)) =
              m_recv_window ch + (m_recv_consumed ch + of_nat (length data)) \<and>
            m_recv_consumed (snd (OnData s ch data)) = 0) \<and>
         (\<not> m_recv_window_initial ch div 2 \<le> m_recv_consumed ch + of_nat (length data) \<longrightarrow>
            m_transport (fst (OnData s ch data)) = m_transport s \<and>
            m_recv_window (snd (OnData s ch data)) = m_recv_window ch \<and>
            m_recv_consumed (snd (OnData s ch data)) =
              m_recv_consumed ch + of_nat (length data)) \<and>
         (unat (m_recv_consumed ch) + length data < 2 ^ 32 \<longrightarrow>
            unat (m_recv_consumed ch + of_nat (length data)) =
              unat (m_recv_consumed ch) + length data) \<and>
         (unat (m_recv_window ch) + unat (m_recv_consumed ch + of_nat (length data)) < 2 ^ 32 \<longrightarrow>
            unat (m_recv_window ch + (m_recv_consumed ch + of_nat (length data))) =
              unat (m_recv_window ch) + unat (m_recv_consumed ch + of_nat (length data))) \<and>
         BuildWindowUpdate (m_id ch) (m_recv_consumed ch + of_nat (length data)) =
           [0x0A, 0] @ le16 (m_id ch) @ [4, 0, 0, 0] @
           le32 (m_recv_consumed ch + of_nat (length data))"
proof -
  have nat: "unat (m_recv_consumed ch) + length data < 2 ^ 32 \<longrightarrow>
      unat (m_recv_consumed ch + of_nat (length data)) = unat (m_recv_consumed ch) + length data"
    by (simp add: unat_word_ariths unat_of_nat)
  have win: "unat w + unat c < 2 ^ 32 \<longrightarrow> unat (w + c) = unat w + unat c" for w c :: u32
    using unat_add_lem [of w c] by simp
  have build: "BuildWindowUpdate cid c = [0x0A, 0] @ le16 cid @ [4, 0, 0, 0] @ le32 c" for cid c
    by (simp add: BuildWindowUpdate_def Encode_def header_bytes_def le32_def)
  from assms nat win build show ?thesis
    by (simp add: OnData_def Let_def SendWindowUpdate_def SendFrame_def split: option.splits)
qed

text \<open>
  Scenario D of the specification: a window of 1024 bytes; 600 bytes of data pass the
  threshold of 512 and are acknowledged by \<^verbatim>\<open>WINDOW_UPDATE(7, 600)\<close>, 100 bytes do not.
\<close>

theorem C4_window_update_witness:
  "m_state ((Channel_init 7 1024)\<lparr> m_state := Relaying \<rparr>) = Relaying \<and>
   m_running started \<and> m_transport started = Some \<lparr> sent = [] \<rparr> \<and>
   m_recv_window_initial ((Channel_init 7 1024)\<lparr> m_state := Relaying \<rparr>) div 2 \<le>
     m_recv_consumed ((Channel_init 7 1024)\<lparr> m_state := Relaying \<rparr>) +
       of_nat (length (replicate 600 (0 :: u8))) \<and>
   m_transport (fst (OnData started ((Channel_init 7 1024)\<lparr> m_state := Relaying \<rparr>)
       (replicate 600 0))) = Some \<lparr> sent = [[0x0A, 0, 7, 0, 4, 0, 0, 0, 0x58, 0x02, 0, 0]] \<rparr> \<and>
   m_recv_window (snd (OnData started ((Channel_init 7 1024)\<lparr> m_state := Relaying \<rparr>)
       (replicate 600 0))) = 1624 \<and>
   m_recv_consumed (snd (OnData started ((Channel_init 7 1024)\<lparr> m_state := Relaying \<rparr>)
       (replicate 600 0))) = 0 \<and>
   \<not> m_recv_window_initial ((Channel_init 7 1024)\<lparr> m_state := Relaying \<rparr>) div 2 \<le>
     m_recv_consumed ((Channel_init 7 1024)\<lparr> m_state := Relaying \<rparr>) +
       of_nat (length (replicate 100 (0 :: u8))) \<and>
   m_transport (fst (OnData started ((Channel_init 7 1024)\<lparr> m_state := Relaying \<rparr>)
       (replicate 100 0))) = Some \<lparr> sent = [] \<rparr> \<and>
   m_recv_window (snd (OnData started ((Channel_init 7 1024)\<lparr> m_state := Relaying \<rparr>)
       (replicate 100 0))) = 1024 \<and>
   m_recv_consumed (snd (OnData started ((Channel_init 7 1024)\<lparr> m_state := Relaying \<rparr>)
       (replicate 100 0))) = 100 \<and>
   unat (m_recv_consumed ((Channel_init 7 1024)\<lparr> m_state := Relaying \<rparr>)) +
     length (replicate 600 (0 :: u8)) < 2 ^ 32 \<and>
   unat (m_recv_window ((Channel_init 7 1024)\<lparr> m_state := Relaying \<rparr>)) +
     unat (m_recv_consumed ((Channel_init 7 1024)\<lparr> m_state := Relaying \<rparr>) +
           of_nat (length (replicate 600 (0 :: u8)))) < 2 ^ 32 \<and>
   unat (m_recv_window (snd (OnData started ((Channel_init 7 1024)\<lparr> m_state := Relaying \<rparr>)
       (replicate 600 0)))) = 1624"
proof -
  let ?ch = "(Channel_init 7 1024)\<lparr> m_state := Relaying \<rparr>"
  have h1: "m_state ?ch = Relaying"
    by simp
  have h2: "m_running started" and h3: "m_transport started = Some \<lparr> sent = [] \<rparr>"
    by (simp_all add: started_simps)
  have ch: "m_recv_window_initial ?ch = 1024" "m_recv_consumed ?ch = 0" "m_recv_window ?ch = 1024"
    "m_id ?ch = 7"
    by (simp_all add: Channel_init_def)
  have big: "m_recv_window_initial ?ch div 2 \<le>
      m_recv_consumed ?ch + of_nat (length (replicate 600 (0 :: u8)))"
    by (simp add: ch)
  have small: "\<not> m_recv_window_initial ?ch div 2 \<le>
      m_recv_consumed ?ch + of_nat (length (replicate 100 (0 :: u8)))"
    by (simp add: ch)
  from big small h1 h2 h3
    C4_window_update [OF h1, of "replicate 600 0" started]
    C4_window_update [OF h1, of "replicate 100 0" started]
  show ?thesis
    by (simp add: ch le16_def le32_def SendWindowUpdate_def SendFrame_def BuildWindowUpdate_def
        Encode_def header_bytes_def)
qed

text \<open>
  C5. For every method selection message (up to 255 methods) and every request message
  with an IPv4, a domain or an IPv6 address (any command and reserved byte, so every
  CONNECT request), \<^verbatim>\<open>ParseMethodRequest\<close> and \<^verbatim>\<open>ParseConnectRequest\<close> return 0 on every
  proper prefix, the empty one included, and on the whole message return its length
  together with the complete result: whether \<^verbatim>\<open>AUTH_NONE\<close> is among the methods, and
  the request with the address type, the address bytes (for IPv4 and IPv6), the host
  string and the port, every other field of the request object being left as it was.
\<close>

theorem C5_incremental_parse:
  "(length ms \<le> 255 \<longrightarrow>
      (\<forall>n < length (method_message ms).
         fst (ParseMethodRequest (take n (method_message ms))) = 0) \<and>
      ParseMethodRequest (method_message ms) =
        (int (length (method_message ms)), AUTH_NONE \<in> set ms)) \<and>
   (length v4addr = 4 \<longrightarrow>
      (\<forall>n < length (connect_message cmd rsv ATYP_IPV4 v4addr ph pl).
         fst (ParseConnectRequest (take n (connect_message cmd rsv ATYP_IPV4 v4addr ph pl)) out) = 0) \<and>
      ParseConnectRequest (connect_message cmd rsv ATYP_IPV4 v4addr ph pl) out =
        (int (length (connect_message cmd rsv ATYP_IPV4 v4addr ph pl)),
         out\<lparr> atyp := ATYP_IPV4, ipv4 := v4addr, host := ipv4_string v4addr, port := be16 ph pl \<rparr>)) \<and>
   (length d \<le> 255 \<longrightarrow>
      (\<forall>n < length (connect_message cmd rsv ATYP_DOMAIN (of_nat (length d) # d) ph pl).
         fst (ParseConnectRequest
                (take n (connect_message cmd rsv ATYP_DOMAIN (of_nat (length d) # d) ph pl))
                out) = 0) \<and>
      ParseConnectRequest (connect_message cmd rsv ATYP_DOMAIN (of_nat (length d) # d) ph pl) out =
        (int (length (connect_message cmd rsv ATYP_DOMAIN (of_nat (length d) # d) ph pl)),
         out\<lparr> atyp := ATYP_DOMAIN, host := map (\<lambda>b. char_of (unat b)) d,
              port := be16 ph pl \<rparr>)) \<and>
   (length v6addr = 16 \<longrightarrow>
      (\<forall>n < length (connect_message cmd rsv ATYP_IPV6 v6addr ph pl).
         fst (ParseConnectRequest (take n (connect_message cmd rsv ATYP_IPV6 v6addr ph pl)) out) = 0) \<and>
      ParseConnectRequest (connect_message cmd rsv ATYP_IPV6 v6addr ph pl) out =
        (int (length (connect_message cmd rsv ATYP_IPV6 v6addr ph pl)),
         out\<lparr> atyp := ATYP_IPV6, ipv6 := v6addr, host := ipv6_string v6addr, port := be16 ph pl \<rparr>))"
proof (intro conjI impI allI)
  fix n assume "length ms \<le> 255" "n < length (method_message ms)"
  then show "fst (ParseMethodRequest (take n (method_message ms))) = 0"
    by (rule method_prefix)
next
  assume "length ms \<le> 255"
  then show "ParseMethodRequest (method_message ms) =
      (int (length (method_message ms)), AUTH_NONE \<in> set ms)"
    by (rule method_full)
next
  fix n assume "length v4addr = 4" "n < length (connect_message cmd rsv ATYP_IPV4 v4addr ph pl)"
  then show "fst (ParseConnectRequest (take n (connect_message cmd rsv ATYP_IPV4 v4addr ph pl)) out) = 0"
    by (rule connect_prefix_ipv4)
next
  assume "length v4addr = 4"
  then show "ParseConnectRequest (connect_message cmd rsv ATYP_IPV4 v4addr ph pl) out =
        (int (length (connect_message cmd rsv ATYP_IPV4 v4addr ph pl)),
         out\<lparr> atyp := ATYP_IPV4, ipv4 := v4addr, host := ipv4_string v4addr, port := be16 ph pl \<rparr>)"
    by (simp add: connect_full_ipv4 connect_message_simps)
next
  fix n assume "length d \<le> 255"
    "n < length (connect_message cmd rsv ATYP_DOMAIN (of_nat (length d) # d) ph pl)"
  then show "fst (ParseConnectRequest
                (take n (connect_message cmd rsv ATYP_DOMAIN (of_nat (length d) # d) ph pl))
                out) = 0"
    by (rule connect_prefix_domain)
next
  assume "length d \<le> 255"
  then show "ParseConnectRequest (connect_message cmd rsv ATYP_DOMAIN (of_nat (length d) # d) ph pl) out =
        (int (length (connect_message cmd rsv ATYP_DOMAIN (of_nat (length d) # d) ph pl)),
         out\<lparr> atyp := ATYP_DOMAIN, host := map (\<lambda>b. char_of (unat b)) d,
              port := be16 ph pl \<rparr>)"
    by (simp add: connect_full_domain connect_message_simps)
next
  fix n assume "length v6addr = 16" "n < length (connect_message cmd rsv ATYP_IPV6 v6addr ph pl)"
  then show "fst (ParseConnectRequest (take n (connect_message cmd rsv ATYP_IPV6 v6addr ph pl)) out) = 0"
    by (rule connect_prefix_ipv6)
next
  assume "length v6addr = 16"
  then show "ParseConnectRequest (connect_message cmd rsv ATYP_IPV6 v6addr ph pl) out =
        (int (length (connect_message cmd rsv ATYP_IPV6 v6addr ph pl)),
         out\<lparr> atyp := ATYP_IPV6, ipv6 := v6addr, host := ipv6_string v6addr, port := be16 ph pl \<rparr>)"
    by (simp add: connect_full_ipv6 connect_message_simps)
qed

text \<open>
  The messages of the test suite: three methods with \<^verbatim>\<open>AUTH_NONE\<close> last, a request for
  192.168.1.1:8080, one for the domain \<open>a.b\<close> port 80 and one for an IPv6 address port
  443, each cut short once.
\<close>

theorem C5_incremental_parse_witness:
  "length [2, 1, 0 :: u8] \<le> 255 \<and>
   4 < length (method_message [2, 1, 0]) \<and>
   fst (ParseMethodRequest (take 4 (method_message [2, 1, 0]))) = 0 \<and>
   ParseMethodRequest (method_message [2, 1, 0]) = (5, True) \<and>
   length [192, 168, 1, 1 :: u8] = 4 \<and>
   6 < length (connect_message 1 0 ATYP_IPV4 [192, 168, 1, 1] 0x1F 0x90) \<and>
   fst (ParseConnectRequest (take 6 (connect_message 1 0 ATYP_IPV4 [192, 168, 1, 1] 0x1F 0x90))
          ConnectRequest_init) = 0 \<and>
   ParseConnectRequest (connect_message 1 0 ATYP_IPV4 [192, 168, 1, 1] 0x1F 0x90) ConnectRequest_init =
     (10, ConnectRequest_init\<lparr> atyp := 1, ipv4 := [192, 168, 1, 1], host := ''192.168.1.1'',
                           port := 8080 \<rparr>) \<and>
   length [0x61, 0x2E, 0x62 :: u8] \<le> 255 \<and>
   6 < length (connect_message 1 0 ATYP_DOMAIN (of_nat (length [0x61, 0x2E, 0x62 :: u8]) #
                 [0x61, 0x2E, 0x62]) 0 80) \<and>
   fst (ParseConnectRequest
          (take 6 (connect_message 1 0 ATYP_DOMAIN (of_nat (length [0x61, 0x2E, 0x62 :: u8]) #
                     [0x61, 0x2E, 0x62]) 0 80))
          ConnectRequest_init) = 0 \<and>
   ParseConnectRequest
     (connect_message 1 0 ATYP_DOMAIN (of_nat (length [0x61, 0x2E, 0x62 :: u8]) #
        [0x61, 0x2E, 0x62]) 0 80)
     ConnectRequest_init =
     (10, ConnectRequest_init\<lparr> atyp := 3, host := ''a.b'', port := 80 \<rparr>) \<and>
   length [0x20, 0x01, 0x0D, 0xB8, 0, 0, 0, 0, 0, 0, 0, 0, 0, 0, 0, 1 :: u8] = 16 \<and>
   21 < length (connect_message 1 0 ATYP_IPV6
                  [0x20, 0x01, 0x0D, 0xB8, 0, 0, 0, 0, 0, 0, 0, 0, 0, 0, 0, 1] 0x01 0xBB) \<and>
   fst (ParseConnectRequest
          (take 21 (connect_message 1 0 ATYP_IPV6
                      [0x20, 0x01, 0x0D, 0xB8, 0, 0, 0, 0, 0, 0, 0, 0, 0, 0, 0, 1] 0x01 0xBB))
          ConnectRequest_init) = 0 \<and>
   ParseConnectRequest
     (connect_message 1 0 ATYP_IPV6
        [0x20, 0x01, 0x0D, 0xB8, 0, 0, 0, 0, 0, 0, 0, 0, 0, 0, 0, 1] 0x01 0xBB)
     ConnectRequest_init =
     (22, ConnectRequest_init\<lparr> atyp := 4,
            ipv6 := [0x20, 0x01, 0x0D, 0xB8, 0, 0, 0, 0, 0, 0, 0, 0, 0, 0, 0, 1],
            host := ''2001:0db8:0000:0000:0000:0000:0000:0001'', port := 443 \<rparr>)"
proof -
  have strings:
    "ipv4_string [192, 168, 1, 1] = ''192.168.1.1''"
    "ipv6_string [0x20, 0x01, 0x0D, 0xB8, 0, 0, 0, 0, 0, 0, 0, 0, 0, 0, 0, 1] =
       ''2001:0db8:0000:0000:0000:0000:0000:0001''"
    "map (\<lambda>b. char_of (unat b)) [0x61, 0x2E, 0x62 :: u8] = ''a.b''"
    by (simp_all add: ipv4_string_def ipv6_string_def fmt_u_def fmt_02x_def digit_char_def
        char_of_def bit_Suc_0_iff)
  have ports: "be16 0x1F 0x90 = 8080" "be16 0 80 = 80" "be16 0x01 0xBB = 443"
    by (simp_all add: be16_def)
  have lens:
    "length (method_message [2, 1, 0]) = 5"
    "length (connect_message 1 0 ATYP_IPV4 [192, 168, 1, 1] 0x1F 0x90) = 10"
    "length (connect_message 1 0 ATYP_DOMAIN (of_nat (length [0x61, 0x2E, 0x62 :: u8]) #
                 [0x61, 0x2E, 0x62]) 0 80) = 10"
    "length (connect_message 1 0 ATYP_IPV6
                  [0x20, 0x01, 0x0D, 0xB8, 0, 0, 0, 0, 0, 0, 0, 0, 0, 0, 0, 1] 0x01 0xBB) = 22"
    by (simp_all add: method_message_simps connect_message_simps)
  from C5_incremental_parse [where ms = "[2, 1, 0]" and cmd = 1 and rsv = 0
      and out = ConnectRequest_init and v4addr = "[192, 168, 1, 1]" and ph = "0x1F" and pl = "0x90"
      and d = "[]" and v6addr = "[]"]
  have m: "fst (ParseMethodRequest (take 4 (method_message [2, 1, 0]))) = 0"
    "ParseMethodRequest (method_message [2, 1, 0]) = (5, True)"
    and v4: "fst (ParseConnectRequest (take 6 (connect_message 1 0 ATYP_IPV4 [192, 168, 1, 1] 0x1F 0x90))
          ConnectRequest_init) = 0"
    "ParseConnectRequest (connect_message 1 0 ATYP_IPV4 [192, 168, 1, 1] 0x1F 0x90) ConnectRequest_init =
     (10, ConnectRequest_init\<lparr> atyp := 1, ipv4 := [192, 168, 1, 1], host := ''192.168.1.1'',
                           port := 8080 \<rparr>)"
    by (simp_all add: lens strings ports)
  from C5_incremental_parse [where ms = "[2, 1, 0]" and cmd = 1 and rsv = 0
      and out = ConnectRequest_init and v4addr = "[]" and ph = 0 and pl = 80
      and d = "[0x61, 0x2E, 0x62]" and v6addr = "[]"]
  have dom: "fst (ParseConnectRequest
          (take 6 (connect_message 1 0 ATYP_DOMAIN (of_nat (length [0x61, 0x2E, 0x62 :: u8]) #
                     [0x61, 0x2E, 0x62]) 0 80))
          ConnectRequest_init) = 0"
    "ParseConnectRequest
     (connect_message 1 0 ATYP_DOMAIN (of_nat (length [0x61, 0x2E, 0x62 :: u8]) #
        [0x61, 0x2E, 0x62]) 0 80)
     ConnectRequest_init =
     (10, ConnectRequest_init\<lparr> atyp := 3, host := ''a.b'', port := 80 \<rparr>)"
    using lens(3) strings(3) ports(2) by simp_all
  from C5_incremental_parse [where ms = "[2, 1, 0]" and cmd = 1 and rsv = 0
      and out = ConnectRequest_init and v4addr = "[]" and ph = "0x01" and pl = "0xBB"
      and d = "[]" and v6addr = "[0x20, 0x01, 0x0D, 0xB8, 0, 0, 0, 0, 0, 0, 0, 0, 0, 0, 0, 1]"]
  have v6: "fst (ParseConnectRequest
          (take 21 (connect_message 1 0 ATYP_IPV6
                      [0x20, 0x01, 0x0D, 0xB8, 0, 0, 0, 0, 0, 0, 0, 0, 0, 0, 0, 1] 0x01 0xBB))
          ConnectRequest_init) = 0"
    "ParseConnectRequest
     (connect_message 1 0 ATYP_IPV6
        [0x20, 0x01, 0x0D, 0xB8, 0, 0, 0, 0, 0, 0, 0, 0, 0, 0, 0, 1] 0x01 0xBB)
     ConnectRequest_init =
     (22, ConnectRequest_init\<lparr> atyp := 4,
            ipv6 := [0x20, 0x01, 0x0D, 0xB8, 0, 0, 0, 0, 0, 0, 0, 0, 0, 0, 0, 1],
            host := ''2001:0db8:0000:0000:0000:0000:0000:0001'', port := 443 \<rparr>)"
    using lens(4) strings(2) ports(3) by simp_all
  from m v4 dom v6 lens show ?thesis
    by simp
qed

text \<open>
  C6 fails on the code. The pair that \<^verbatim>\<open>ParseConnectRequest\<close> returns does not depend on
  the command byte at all: replacing the byte at offset 1 by any other changes neither
  the count nor the request (both branches of the final test return \<^verbatim>\<open>total\<close>). So a
  BIND request (command 2) gives the very result of the CONNECT request to the same
  address, and a channel that receives it connects to the target and sends no reply.
\<close>

theorem C6_command_not_reported:
  "ParseConnectRequest (data[1 := cmd]) out = ParseConnectRequest data out \<and>
   ParseConnectRequest [5, 2, 0, 1, 192, 168, 1, 1, 0x1F, 0x90] ConnectRequest_init =
     (10, ConnectRequest_init\<lparr> atyp := 1, ipv4 := [192, 168, 1, 1], host := ''192.168.1.1'',
                           port := 8080 \<rparr>) \<and>
   ParseConnectRequest [5, 1, 0, 1, 192, 168, 1, 1, 0x1F, 0x90] ConnectRequest_init =
     (10, ConnectRequest_init\<lparr> atyp := 1, ipv4 := [192, 168, 1, 1], host := ''192.168.1.1'',
                           port := 8080 \<rparr>) \<and>
   m_state (snd (OnRequest always_connects started
      ((Channel_init 7 262144)\<lparr> m_state := Requesting, m_method_done := True \<rparr>)
      [5, 2, 0, 1, 192, 168, 1, 1, 0x1F, 0x90])) = Connecting \<and>
   tcp_calls (fst (OnRequest always_connects started
      ((Channel_init 7 262144)\<lparr> m_state := Requesting, m_method_done := True \<rparr>)
      [5, 2, 0, 1, 192, 168, 1, 1, 0x1F, 0x90])) = [Tcp_ConnectAsync 7 ''192.168.1.1'' 8080] \<and>
   m_transport (fst (OnRequest always_connects started
      ((Channel_init 7 262144)\<lparr> m_state := Requesting, m_method_done := True \<rparr>)
      [5, 2, 0, 1, 192, 168, 1, 1, 0x1F, 0x90])) = Some \<lparr> sent = [] \<rparr>"
proof -
  have indep: "ParseConnectRequest (data[1 := cmd]) out = ParseConnectRequest data out"
    by (simp add: ParseConnectRequest_def ParseConnectRequest_addr_def Let_def
        drop_update_cancel)
  have bind: "ParseConnectRequest [5, 2, 0, 1, 192, 168, 1, 1, 0x1F, 0x90] ConnectRequest_init =
     (10, ConnectRequest_init\<lparr> atyp := 1, ipv4 := [192, 168, 1, 1], host := ''192.168.1.1'',
                           port := 8080 \<rparr>)"
    by (simp add: ParseConnectRequest_def ParseConnectRequest_addr_def
        ipv4_string_def fmt_u_def digit_char_def char_of_def bit_Suc_0_iff)
  have conn: "ParseConnectRequest [5, 1, 0, 1, 192, 168, 1, 1, 0x1F, 0x90] ConnectRequest_init =
     (10, ConnectRequest_init\<lparr> atyp := 1, ipv4 := [192, 168, 1, 1], host := ''192.168.1.1'',
                           port := 8080 \<rparr>)"
    by (simp add: ParseConnectRequest_def ParseConnectRequest_addr_def
        ipv4_string_def fmt_u_def digit_char_def char_of_def bit_Suc_0_iff)
  have chan: "OnRequest always_connects started
      ((Channel_init 7 262144)\<lparr> m_state := Requesting, m_method_done := True \<rparr>)
      [5, 2, 0, 1, 192, 168, 1, 1, 0x1F, 0x90] =
      (started\<lparr> tcp_calls := [Tcp_ConnectAsync 7 ''192.168.1.1'' 8080] \<rparr>,
       (Channel_init 7 262144)\<lparr> m_state := Connecting, m_method_done := True,
          m_connect_req := ConnectRequest_init\<lparr> atyp := 1, ipv4 := [192, 168, 1, 1],
             host := ''192.168.1.1'', port := 8080 \<rparr>,
          m_target := Some TcpConnection \<rparr>)"
    by (simp add: OnRequest_def ProcessSocks5_def ProcessSocks5_connect_def bind
        always_connects_def started_simps Let_def Channel_init_def target_reset_def)
  from indep bind conn chan show ?thesis
    by (simp add: started_simps)
qed

text \<open>
  C7. Let a frame's channel id be absent from the registry. If the frame is a
  CHANNEL\_CLOSE, dispatching it does what \<^verbatim>\<open>SendChannelCloseAck\<close> for that id does and
  nothing else: a running session with a transport sends exactly the CHANNEL\_CLOSE\_ACK
  of that id. If the frame is a CHANNEL\_CLOSE\_ACK, dispatching it leaves the whole
  session as it was, so nothing is sent and no state changes.
\<close>

theorem C7_close_unknown_channel:
  assumes "FindChannel s (channel_id (header frame)) = None"
  shows "(type (header frame) = FrameType_u8 ChannelClose \<longrightarrow>
            DispatchFrame env s frame = SendChannelCloseAck s (channel_id (header frame)) \<and>
            (\<forall>t. m_running s \<and> m_transport s = Some t \<longrightarrow>
               DispatchFrame env s frame =
                 s\<lparr> m_transport :=
                      Some (t\<lparr> sent := sent t @
                                  [BuildChannelCloseAck (channel_id (header frame))] \<rparr>) \<rparr>)) \<and>
         (type (header frame) = FrameType_u8 ChannelCloseAck \<longrightarrow>
            DispatchFrame env s frame = s)"
  using assms
  by (simp add: DispatchFrame_def HandleChannelClose_def HandleChannelCloseAck_def
      SendChannelCloseAck_def SendFrame_def)

text \<open>A started session without channels receives CLOSE and CLOSE\_ACK for channel 9.\<close>

theorem C7_close_unknown_channel_witness:
  "FindChannel started (channel_id (header
      \<lparr> header = \<lparr> type = 6, flags = 0, channel_id = 9, payload_length = 0 \<rparr>,
        payload = [] \<rparr>)) = None \<and>
   type (header \<lparr> header = \<lparr> type = 6, flags = 0, channel_id = 9, payload_length = 0 \<rparr>,
                  payload = [] \<rparr>) = FrameType_u8 ChannelClose \<and>
   m_running started \<and> m_transport started = Some \<lparr> sent = [] \<rparr> \<and>
   DispatchFrame always_connects started
      \<lparr> header = \<lparr> type = 6, flags = 0, channel_id = 9, payload_length = 0 \<rparr>, payload = [] \<rparr> =
     started\<lparr> m_transport := Some \<lparr> sent = [[7, 0, 9, 0, 0, 0, 0, 0]] \<rparr> \<rparr> \<and>
   FindChannel started (channel_id (header
      \<lparr> header = \<lparr> type = 7, flags = 0, channel_id = 9, payload_length = 0 \<rparr>,
        payload = [] \<rparr>)) = None \<and>
   type (header \<lparr> header = \<lparr> type = 7, flags = 0, channel_id = 9, payload_length = 0 \<rparr>,
                  payload = [] \<rparr>) = FrameType_u8 ChannelCloseAck \<and>
   DispatchFrame always_connects started
      \<lparr> header = \<lparr> type = 7, flags = 0, channel_id = 9, payload_length = 0 \<rparr>, payload = [] \<rparr> =
     started"
proof -
  let ?close = "\<lparr> header = \<lparr> type = 6, flags = 0, channel_id = 9, payload_length = 0 \<rparr>,
                  payload = [] \<rparr>"
  let ?ack = "\<lparr> header = \<lparr> type = 7, flags = 0, channel_id = 9, payload_length = 0 \<rparr>,
                payload = [] \<rparr>"
  have h1: "FindChannel started (channel_id (header ?close)) = None"
    and h2: "FindChannel started (channel_id (header ?ack)) = None"
    by (simp_all add: FindChannel_def started_simps)
  from h1 h2 C7_close_unknown_channel [OF h1, of always_connects]
    C7_close_unknown_channel [OF h2, of always_connects]
  show ?thesis
    by (simp add: started_simps BuildChannelCloseAck_def Encode_def header_bytes_def
        le16_def le32_def SendChannelCloseAck_def SendFrame_def)
qed

text \<open>
  C8 fails on the code. \<^verbatim>\<open>OnDataReceived\<close> and the handlers do not look at
  \<^verbatim>\<open>m_running\<close>; only \<^verbatim>\<open>SendFrame\<close> and the keepalive callback do. After \<^verbatim>\<open>Shutdown\<close> of
  a started session the registry is empty, and a CHANNEL\_OPEN for channel 7 that
  arrives then creates the channel and leaves it in the registry, in state
  \<^verbatim>\<open>Requesting\<close> (nothing is sent). Two CHANNEL\_REQUEST frames behind it drive the SOCKS5
  handshake and start an outbound connect.
\<close>

theorem C8_frames_after_shutdown:
  "\<not> m_running (MuxSession_Shutdown started) \<and>
   m_channels (MuxSession_Shutdown started) = [] \<and>
   m_channels (OnDataReceived always_connects (MuxSession_Shutdown started)
       [1, 0, 7, 0, 0, 0, 0, 0]) =
     [(7, (Channel_init 7 262144)\<lparr> m_state := Requesting \<rparr>)] \<and>
   m_transport (OnDataReceived always_connects (MuxSession_Shutdown started)
       [1, 0, 7, 0, 0, 0, 0, 0]) = Some \<lparr> sent = [] \<rparr> \<and>
   tcp_calls (OnDataReceived always_connects (MuxSession_Shutdown started)
       ([1, 0, 7, 0, 0, 0, 0, 0] @ [3, 0, 7, 0, 3, 0, 0, 0, 5, 1, 0] @
        [3, 0, 7, 0, 10, 0, 0, 0, 5, 1, 0, 1, 192, 168, 1, 1, 0x1F, 0x90])) =
     [Tcp_ConnectAsync 7 ''192.168.1.1'' 8080]"
proof -
  have down: "MuxSession_Shutdown started =
      started\<lparr> m_running := False, m_keepalive_timer := False \<rparr>"
    by (simp add: MuxSession_Shutdown_def StopKeepaliveTimer_def CloseAllChannels_def
        started_def MuxSession_Start_def MuxSession_init_def StartKeepaliveTimer_def)
  have feed1: "Feed FrameCodec_init [1, 0, 7, 0, 0, 0, 0, 0] [] =
      (FrameCodec_init,
       [\<lparr> header = \<lparr> type = 1, flags = 0, channel_id = 7, payload_length = 0 \<rparr>,
          payload = [] \<rparr>])"
    by (simp add: Feed_def FrameCodec_init_def Feed_loop.simps Feed_parse.simps read_header_def
        rd16_def rd32_def)
  have feed3: "Feed FrameCodec_init
      [1, 0, 7, 0, 0, 0, 0, 0, 3, 0, 7, 0, 3, 0, 0, 0, 5, 1, 0,
       3, 0, 7, 0, 10, 0, 0, 0, 5, 1, 0, 1, 192, 168, 1, 1, 0x1F, 0x90] [] =
      (FrameCodec_init,
       [\<lparr> header = \<lparr> type = 1, flags = 0, channel_id = 7, payload_length = 0 \<rparr>,
          payload = [] \<rparr>,
        \<lparr> header = \<lparr> type = 3, flags = 0, channel_id = 7, payload_length = 3 \<rparr>,
          payload = [5, 1, 0] \<rparr>,
        \<lparr> header = \<lparr> type = 3, flags = 0, channel_id = 7, payload_length = 10 \<rparr>,
          payload = [5, 1, 0, 1, 192, 168, 1, 1, 0x1F, 0x90] \<rparr>])"
    by (simp add: Feed_def FrameCodec_init_def Feed_loop.simps Feed_parse.simps read_header_def
        rd16_def rd32_def)
  have conn: "ParseConnectRequest [5, 1, 0, 1, 192, 168, 1, 1, 0x1F, 0x90] ConnectRequest_init =
     (10, ConnectRequest_init\<lparr> atyp := 1, ipv4 := [192, 168, 1, 1], host := ''192.168.1.1'',
                           port := 8080 \<rparr>)"
    by (simp add: ParseConnectRequest_def ParseConnectRequest_addr_def
        ipv4_string_def fmt_u_def digit_char_def char_of_def bit_Suc_0_iff)
  have meth: "ParseMethodRequest [5, 1, 0] = (3, True)"
    by (simp add: ParseMethodRequest_def scan_methods_def)
  have one: "m_channels (OnDataReceived always_connects (MuxSession_Shutdown started)
       [1, 0, 7, 0, 0, 0, 0, 0]) =
     [(7, (Channel_init 7 262144)\<lparr> m_state := Requesting \<rparr>)]"
    "m_transport (OnDataReceived always_connects (MuxSession_Shutdown started)
       [1, 0, 7, 0, 0, 0, 0, 0]) = Some \<lparr> sent = [] \<rparr>"
    by (simp_all add: OnDataReceived_def down started_simps feed1 DispatchFrame_def
        HandleChannelOpen_def Let_def OnOpen_def SendChannelOpenAck_def SendFrame_def
        store_channel_def)
  have three: "tcp_calls (OnDataReceived always_connects (MuxSession_Shutdown started)
       ([1, 0, 7, 0, 0, 0, 0, 0] @ [3, 0, 7, 0, 3, 0, 0, 0, 5, 1, 0] @
        [3, 0, 7, 0, 10, 0, 0, 0, 5, 1, 0, 1, 192, 168, 1, 1, 0x1F, 0x90])) =
     [Tcp_ConnectAsync 7 ''192.168.1.1'' 8080]"
    by (simp add: OnDataReceived_def down started_simps feed3 DispatchFrame_def
        HandleChannelOpen_def HandleChannelRequest_def FindChannel_def Let_def OnOpen_def
        SendChannelOpenAck_def SendChannelRequestAck_def SendFrame_def store_channel_def
        OnRequest_def ProcessSocks5_def ProcessSocks5_connect_def meth conn Channel_init_def
        always_connects_def BuildMethodResponse_def target_reset_def)
  from down one three show ?thesis
    by (simp add: started_simps)
qed

text \<open>
  C9. Let a CHANNEL\_OPEN frame carry an id that the registry maps to a channel \<open>old\<close>
  (the registry's keys being distinct, as those of a map are and as they are in every
  consistent session). Then \<^verbatim>\<open>HandleChannelOpen\<close>
  destroys \<open>old\<close>: the calls on outbound connections grow by exactly those of its
  destructor, which close the connection if \<open>old\<close> owns one. Afterwards the registry
  has the same keys, still distinct, with exactly one entry for the id, and it maps
  the id to a fresh channel (the constructor's values for the session's window size)
  in state \<^verbatim>\<open>Requesting\<close>.
\<close>

theorem C9_reopen_replaces_channel:
  assumes "FindChannel s (channel_id (header frame)) = Some old"
    and "distinct (map fst (m_channels s))"
  shows "FindChannel (HandleChannelOpen s frame) (channel_id (header frame)) =
           Some ((Channel_init (channel_id (header frame)) (m_channel_window_size s))
                   \<lparr> m_state := Requesting \<rparr>) \<and>
         length (filter (\<lambda>e. fst e = channel_id (header frame))
                   (m_channels (HandleChannelOpen s frame))) = 1 \<and>
         distinct (map fst (m_channels (HandleChannelOpen s frame))) \<and>
         map fst (m_channels (HandleChannelOpen s frame)) = map fst (m_channels s) \<and>
         tcp_calls (HandleChannelOpen s frame) = tcp_calls (Channel_dtor s old) \<and>
         (m_target old \<noteq> None \<longrightarrow>
            tcp_calls (HandleChannelOpen s frame) =
              tcp_calls s @
                (if m_state old = Closed then [Tcp_Close (m_id old)]
                 else [Tcp_Close (m_id old), Tcp_Close (m_id old)]))"
proof -
  let ?cid = "channel_id (header frame)"
  let ?new = "Channel_init ?cid (m_channel_window_size s)"
  let ?al = "AList.update ?cid (?new\<lparr> m_state := Requesting \<rparr>) (AList.update ?cid ?new (m_channels s))"
  from assms(1) have old: "map_of (m_channels s) ?cid = Some old"
    by (simp add: FindChannel_def)
  have chans: "m_channels (HandleChannelOpen s frame) = ?al"
    using old
    by (simp add: HandleChannelOpen_def Let_def split_beta store_channel_def OnOpen_effect
        Channel_dtor_effect)
  have calls: "tcp_calls (HandleChannelOpen s frame) = tcp_calls (Channel_dtor s old)"
    using old
    by (simp add: HandleChannelOpen_def Let_def split_beta store_channel_def OnOpen_effect)
  have found: "map_of ?al ?cid = Some (?new\<lparr> m_state := Requesting \<rparr>)"
    by (simp add: update_conv')
  have dist: "distinct (map fst ?al)"
    using assms(2) by (simp add: distinct_update)
  have keys: "map fst ?al = map fst (m_channels s)"
    using old by (simp add: AList.update_keys map_of_eq_None_iff [symmetric] del: map_of_eq_None_iff)
  from one_entry [OF dist found] found dist keys calls show ?thesis
    by (simp add: chans FindChannel_def Channel_dtor_effect)
qed

text \<open>
  Channel 7 is relaying and owns a connection when CHANNEL\_OPEN(7) arrives: the
  connection is closed (by \<^verbatim>\<open>ForceClose\<close> and again by the destructor of the connection)
  and the registry holds the fresh channel only.
\<close>

theorem C9_reopen_replaces_channel_witness:
  "FindChannel
     (started\<lparr> m_channels :=
        [(7, (Channel_init 7 262144)\<lparr> m_state := Relaying, m_target := Some TcpConnection \<rparr>)] \<rparr>)
     (channel_id (header \<lparr> header = \<lparr> type = 1, flags = 0, channel_id = 7, payload_length = 0 \<rparr>,
                           payload = [] \<rparr>)) =
     Some ((Channel_init 7 262144)\<lparr> m_state := Relaying, m_target := Some TcpConnection \<rparr>) \<and>
   distinct (map fst (m_channels
     (started\<lparr> m_channels :=
        [(7, (Channel_init 7 262144)\<lparr> m_state := Relaying, m_target := Some TcpConnection \<rparr>)] \<rparr>))) \<and>
   m_target ((Channel_init 7 262144)\<lparr> m_state := Relaying, m_target := Some TcpConnection \<rparr>) \<noteq> None \<and>
   m_channels (HandleChannelOpen
     (started\<lparr> m_channels :=
        [(7, (Channel_init 7 262144)\<lparr> m_state := Relaying, m_target := Some TcpConnection \<rparr>)] \<rparr>)
     \<lparr> header = \<lparr> type = 1, flags = 0, channel_id = 7, payload_length = 0 \<rparr>, payload = [] \<rparr>) =
     [(7, (Channel_init 7 262144)\<lparr> m_state := Requesting \<rparr>)] \<and>
   tcp_calls (HandleChannelOpen
     (started\<lparr> m_channels :=
        [(7, (Channel_init 7 262144)\<lparr> m_state := Relaying, m_target := Some TcpConnection \<rparr>)] \<rparr>)
     \<lparr> header = \<lparr> type = 1, flags = 0, channel_id = 7, payload_length = 0 \<rparr>, payload = [] \<rparr>) =
     [Tcp_Close 7, Tcp_Close 7]"
proof -
  let ?old = "(Channel_init 7 262144)\<lparr> m_state := Relaying, m_target := Some TcpConnection \<rparr>"
  let ?s = "started\<lparr> m_channels := [(7, ?old)] \<rparr>"
  let ?open = "\<lparr> header = \<lparr> type = 1, flags = 0, channel_id = 7, payload_length = 0 \<rparr>,
                 payload = [] \<rparr>"
  have h1: "FindChannel ?s (channel_id (header ?open)) = Some ?old"
    by (simp add: FindChannel_def)
  have h2: "distinct (map fst (m_channels ?s))"
    by simp
  have h3: "m_target ?old \<noteq> None"
    by simp
  have ws: "m_channel_window_size ?s = 262144" "tcp_calls ?s = []" "m_id ?old = 7"
    by (simp_all add: started_simps Channel_init_def)
  have "m_channels (HandleChannelOpen ?s ?open) = [(7, (Channel_init 7 262144)\<lparr> m_state := Requesting \<rparr>)]"
  proof -
    from C9_reopen_replaces_channel [OF h1 h2]
    have f: "FindChannel (HandleChannelOpen ?s ?open) 7 =
        Some ((Channel_init 7 262144)\<lparr> m_state := Requesting \<rparr>)"
      and k: "map fst (m_channels (HandleChannelOpen ?s ?open)) = [7]"
      by (simp_all add: ws)
    from k obtain c where "m_channels (HandleChannelOpen ?s ?open) = [(7, c)]"
      by (cases "m_channels (HandleChannelOpen ?s ?open)") auto
    with f show ?thesis by (simp add: FindChannel_def)
  qed
  with h1 h2 h3 C9_reopen_replaces_channel [OF h1 h2] show ?thesis
    by (simp add: ws Channel_dtor_effect)
qed

text \<open>
  C10. For a channel whose state is not \<^verbatim>\<open>Connecting\<close>, the completion callback of the
  outbound connect, with any error code, returns the session and the channel as they
  were: the state, the SOCKS5 buffer, the windows, the frames sent to the transport
  and the calls on the connection are unchanged.
\<close>

theorem C10_connect_callback_noop:
  "m_state ch \<noteq> Connecting \<Longrightarrow> OnTargetConnected s ch ec = (s, ch)"
  by (simp add: OnTargetConnected_def)

text \<open>A relaying channel receives a late completion with \<^verbatim>\<open>ConnectionRefused\<close>.\<close>

theorem C10_connect_callback_noop_witness:
  "m_state ((Channel_init 7 262144)\<lparr> m_state := Relaying \<rparr>) \<noteq> Connecting \<and>
   OnTargetConnected started ((Channel_init 7 262144)\<lparr> m_state := Relaying \<rparr>) ConnectionRefused =
     (started, (Channel_init 7 262144)\<lparr> m_state := Relaying \<rparr>)"
proof -
  have h: "m_state ((Channel_init 7 262144)\<lparr> m_state := Relaying \<rparr>) \<noteq> Connecting"
    by simp
  from h C10_connect_callback_noop [OF h, of started ConnectionRefused] show ?thesis
    by simp
qed

end
